theory Spec2Isabelle
  imports Main "HOL-Library.Sublist" "HOL-Library.List_Lexorder" "HOL-Library.Char_ord"
begin

section \<open>Go library functions used by the tracker\<close>

text \<open>
  A Go \<^verbatim>\<open>string\<close> is a sequence of bytes; it is modelled as a \<^typ>\<open>string\<close>, whose
  characters are bytes. \<^verbatim>\<open>strings.HasPrefix(s, p)\<close> is \<^term>\<open>prefix p s\<close>.
\<close>

subsection \<open>strconv.Atoi\<close>

text \<open>
  \<^verbatim>\<open>strconv.Atoi\<close> accepts an optional sign followed by at least one decimal digit and
  nothing else, and fails when the value does not fit the 64-bit \<^verbatim>\<open>int\<close> of the
  only build target (linux/amd64). \<^verbatim>\<open>None\<close> stands for a non-nil error.
\<close>

definition isDigit :: "char \<Rightarrow> bool" where
  "isDigit ch = (48 \<le> (of_char ch :: nat) \<and> (of_char ch :: nat) \<le> 57)"

fun parseDigits :: "nat \<Rightarrow> string \<Rightarrow> nat option" where
  "parseDigits n [] = Some n"
| "parseDigits n (ch # s) =
     (if isDigit ch then parseDigits (n * 10 + (of_char ch - 48)) s else None)"

definition Atoi :: "string \<Rightarrow> int option" where
  "Atoi s0 =
     (case s0 of
        [] \<Rightarrow> None
      | c # cs \<Rightarrow>
          (let s = (if c = CHR ''-'' \<or> c = CHR ''+'' then cs else s0) in
           if s = [] then None
           else (case parseDigits 0 s of
                   None \<Rightarrow> None
                 | Some n \<Rightarrow>
                     if c = CHR ''-''
                     then (if n \<le> 2 ^ 63 then Some (- int n) else None)
                     else (if n < 2 ^ 63 then Some (int n) else None))))"

subsection \<open>fmt.Sprintf with the format 0x%08x\<close>

text \<open>
  The verb \<^verbatim>\<open>%08x\<close> prints an \<^verbatim>\<open>int\<close> in lower-case hexadecimal, padded with zeros
  to a width of at least eight; the sign of a negative value counts towards the width
  and precedes the zeros.
\<close>

definition ldigits :: string where
  "ldigits = ''0123456789abcdef''"

fun fmtHex :: "nat \<Rightarrow> string" where
  "fmtHex n = (if n < 16 then [ldigits ! n] else fmtHex (n div 16) @ [ldigits ! (n mod 16)])"

declare fmtHex.simps [simp del]

definition zeroPad :: "nat \<Rightarrow> string \<Rightarrow> string" where
  "zeroPad w s = replicate (w - length s) CHR ''0'' @ s"

definition Sprintf_0x08x :: "int \<Rightarrow> string" where
  "Sprintf_0x08x v =
     ''0x'' @ (if v < 0 then CHR ''-'' # zeroPad 7 (fmtHex (nat (- v)))
               else zeroPad 8 (fmtHex (nat v)))"

subsection \<open>url.QueryEscape, strings.ReplaceAll of the placeholder, the verb %d\<close>

text \<open>
  \<^verbatim>\<open>url.QueryEscape\<close> keeps letters, digits and the four characters \<^verbatim>\<open>-_.~\<close>, turns
  a space into \<^verbatim>\<open>+\<close> and every other byte into \<^verbatim>\<open>%\<close> and two upper-case
  hexadecimal digits.
\<close>

definition upperhex :: string where
  "upperhex = ''0123456789ABCDEF''"

definition shouldEscape :: "char \<Rightarrow> bool" where
  "shouldEscape ch =
     (let c = (of_char ch :: nat) in
      if (97 \<le> c \<and> c \<le> 122) \<or> (65 \<le> c \<and> c \<le> 90) \<or> (48 \<le> c \<and> c \<le> 57) then False
      else if ch \<in> set ''-_.~'' then False
      else True)"

fun QueryEscape :: "string \<Rightarrow> string" where
  "QueryEscape [] = []"
| "QueryEscape (ch # s) =
     (if shouldEscape ch then
        (if ch = CHR 0x20 then CHR ''+'' # QueryEscape s
         else CHR ''%'' # upperhex ! (of_char ch div 16) # upperhex ! (of_char ch mod 16)
              # QueryEscape s)
      else ch # QueryEscape s)"

text \<open>
  \<^verbatim>\<open>strings.ReplaceAll(s, "%s", new)\<close>: every occurrence of the two bytes \<^verbatim>\<open>%s\<close>, from
  left to right and without overlap, is replaced by \<open>new\<close>.
\<close>

fun ReplaceAll_placeholder :: "string \<Rightarrow> string \<Rightarrow> string" where
  "ReplaceAll_placeholder [] new = []"
| "ReplaceAll_placeholder [ch] new = [ch]"
| "ReplaceAll_placeholder (ch # ch' # s) new =
     (if ch = CHR ''%'' \<and> ch' = CHR ''s'' then new @ ReplaceAll_placeholder s new
      else ch # ReplaceAll_placeholder (ch' # s) new)"

fun fmtDecNat :: "nat \<Rightarrow> string" where
  "fmtDecNat n =
     (if n < 10 then [ldigits ! n] else fmtDecNat (n div 10) @ [ldigits ! (n mod 10)])"

declare fmtDecNat.simps [simp del]

definition fmtDec :: "int \<Rightarrow> string" where
  "fmtDec v = (if v < 0 then CHR ''-'' # fmtDecNat (nat (- v)) else fmtDecNat (nat v))"

subsection \<open>White space: strings.TrimSpace and strings.Fields\<close>

text \<open>
  Both functions use \<^verbatim>\<open>unicode.IsSpace\<close>: the six ASCII characters tab, line feed,
  vertical tab, form feed, carriage return and space, and the code points U+0085,
  U+00A0, U+1680, U+2000 to U+200A, U+2028, U+2029, U+202F, U+205F and U+3000.
  On the bytes of a string, a white-space rune is one ASCII byte or the UTF-8 encoding
  of one of these code points. The decoder of Go accepts no other encoding of them, an
  encoding starts with a byte that is not a continuation byte, and inside a well-formed
  multi-byte rune every further byte is a continuation byte; so reading the bytes one
  by one and matching the encodings finds the same white space as decoding rune by
  rune, from the front and from the back.
\<close>

definition asciiSpace :: "char \<Rightarrow> bool" where
  "asciiSpace ch = (ch \<in> set [CHR 0x09, CHR 0x0A, CHR 0x0B, CHR 0x0C, CHR 0x0D, CHR 0x20])"

definition spaceRunes :: "string list" where
  "spaceRunes =
     [[CHR 0xC2, CHR 0x85], [CHR 0xC2, CHR 0xA0], [CHR 0xE1, CHR 0x9A, CHR 0x80],
      [CHR 0xE2, CHR 0x80, CHR 0x80], [CHR 0xE2, CHR 0x80, CHR 0x81],
      [CHR 0xE2, CHR 0x80, CHR 0x82], [CHR 0xE2, CHR 0x80, CHR 0x83],
      [CHR 0xE2, CHR 0x80, CHR 0x84], [CHR 0xE2, CHR 0x80, CHR 0x85],
      [CHR 0xE2, CHR 0x80, CHR 0x86], [CHR 0xE2, CHR 0x80, CHR 0x87],
      [CHR 0xE2, CHR 0x80, CHR 0x88], [CHR 0xE2, CHR 0x80, CHR 0x89],
      [CHR 0xE2, CHR 0x80, CHR 0x8A], [CHR 0xE2, CHR 0x80, CHR 0xA8],
      [CHR 0xE2, CHR 0x80, CHR 0xA9], [CHR 0xE2, CHR 0x80, CHR 0xAF],
      [CHR 0xE2, CHR 0x81, CHR 0x9F], [CHR 0xE3, CHR 0x80, CHR 0x80]]"

text \<open>
  The number of bytes of the white-space rune that \<open>s\<close> starts with, and 0 when \<open>s\<close>
  starts with none.
\<close>

definition spaceWidth :: "string list \<Rightarrow> string \<Rightarrow> nat" where
  "spaceWidth encodings s =
     (case s of
        [] \<Rightarrow> 0
      | ch # _ \<Rightarrow>
          if asciiSpace ch then 1
          else (case find (\<lambda>p. prefix p s) encodings of
                  Some p \<Rightarrow> length p
                | None \<Rightarrow> 0))"

lemma spaceWidth_Nil: "spaceWidth encodings [] = 0"
  by (simp add: spaceWidth_def)

function dropSpaces :: "string list \<Rightarrow> string \<Rightarrow> string" where
  "dropSpaces encodings s =
     (if spaceWidth encodings s = 0 then s
      else dropSpaces encodings (drop (spaceWidth encodings s) s))"
  by pat_completeness auto
termination
proof (relation "measure (\<lambda>(encodings, s). length s)")
  show "wf (measure (\<lambda>(encodings :: string list, s :: string). length s))"
    by simp
next
  fix encodings :: "string list" and s :: string
  assume w: "spaceWidth encodings s \<noteq> 0"
  then have "s \<noteq> []"
    using spaceWidth_Nil by auto
  then show "((encodings, drop (spaceWidth encodings s) s), (encodings, s))
      \<in> measure (\<lambda>(encodings, s). length s)"
    using w by simp
qed

declare dropSpaces.simps [simp del]

text \<open>
  \<^verbatim>\<open>strings.TrimSpace\<close>: the leading white space is removed first, reading forwards,
  then the trailing white space of what is left, reading backwards.
\<close>

definition TrimSpace :: "string \<Rightarrow> string" where
  "TrimSpace s = rev (dropSpaces (map rev spaceRunes) (rev (dropSpaces spaceRunes s)))"

text \<open>
  \<^verbatim>\<open>strings.Fields\<close>: the maximal pieces of \<open>s\<close> without white space, in order;
  \<open>cur\<close> holds the bytes of the field being read.
\<close>

function fieldsFrom :: "string \<Rightarrow> string \<Rightarrow> string list" where
  "fieldsFrom cur [] = (if cur = [] then [] else [cur])"
| "fieldsFrom cur (ch # s) =
     (if spaceWidth spaceRunes (ch # s) = 0 then fieldsFrom (cur @ [ch]) s
      else (if cur = [] then [] else [cur])
           @ fieldsFrom [] (drop (spaceWidth spaceRunes (ch # s) - 1) s))"
  by pat_completeness auto
termination
  by (relation "measure (\<lambda>(cur, s). length s)") auto

definition Fields :: "string \<Rightarrow> string list" where
  "Fields s = fieldsFrom [] s"

subsection \<open>strings.Split on the line feed, strings.Contains\<close>

text \<open>
  \<^verbatim>\<open>strings.Split(s, "\n")\<close> returns the pieces between the line feeds; the empty
  string gives one empty piece.
\<close>

fun splitLines :: "string \<Rightarrow> string list" where
  "splitLines [] = [[]]"
| "splitLines (ch # s) =
     (if ch = CHR 0x0A then [] # splitLines s
      else (case splitLines s of
              [] \<Rightarrow> [[ch]]
            | l # ls \<Rightarrow> (ch # l) # ls))"

fun Contains :: "string \<Rightarrow> string \<Rightarrow> bool" where
  "Contains [] substr = (substr = [])"
| "Contains (ch # s) substr = (prefix substr (ch # s) \<or> Contains s substr)"

lemmas strings_eval =
  asciiSpace_def spaceRunes_def spaceWidth_def dropSpaces.simps TrimSpace_def Fields_def

section \<open>WindowID normalizer\<close>

definition normalizeWindowID :: "string \<Rightarrow> string" where
  "normalizeWindowID wid =
     (if prefix ''0x'' wid then wid
      else (case Atoi wid of
              Some val \<Rightarrow> Sprintf_0x08x val
            | None \<Rightarrow> wid))"

subsection \<open>What a decimal and a hexadecimal string denote\<close>

text \<open>
  The reading of a digit string as a number, written independently of the parser:
  the last character is the unit digit.
\<close>

definition decimalValue :: "string \<Rightarrow> nat" where
  "decimalValue d = foldl (\<lambda>a ch. a * 10 + (of_char ch - 48)) 0 d"

definition isLowerHex :: "char \<Rightarrow> bool" where
  "isLowerHex ch = (ch \<in> set ldigits)"

definition hexDigitValue :: "char \<Rightarrow> nat" where
  "hexDigitValue ch = (if isDigit ch then of_char ch - 48 else of_char ch - 87)"

definition hexValue :: "string \<Rightarrow> nat" where
  "hexValue h = foldl (\<lambda>a ch. a * 16 + hexDigitValue ch) 0 h"

section \<open>Configuration, errors and observable events\<close>

text \<open>
  The fields of \<^verbatim>\<open>Config.Behavior\<close>. The numbers come from a JSON file into Go's
  64-bit \<^verbatim>\<open>int\<close> and are modelled as \<^typ>\<open>int\<close>; the one computation on them, the
  horizontal position of the window, wraps around as it does in Go (\<open>wrap64\<close>).
\<close>

record Behavior =
  AutoCopyDelayMs :: int
  MaxWindows :: int
  WindowWidth :: int
  WindowHeight :: int
  FirefoxProfile :: string
  SelectionMethod :: string
  SelectionTimeoutMs :: int
  LogSelections :: bool

text \<open>
  The defaults that \<^verbatim>\<open>loadConfig\<close> fills in for the values of \<^verbatim>\<open>Behavior\<close> that the
  file leaves out (a number that is 0, a string that is empty).
\<close>

definition loadConfig_defaults :: "Behavior \<Rightarrow> Behavior" where
  "loadConfig_defaults b =
     b\<lparr>AutoCopyDelayMs := (if AutoCopyDelayMs b = 0 then 500 else AutoCopyDelayMs b),
       MaxWindows := (if MaxWindows b = 0 then 5 else MaxWindows b),
       WindowWidth := (if WindowWidth b = 0 then 650 else WindowWidth b),
       WindowHeight := (if WindowHeight b = 0 then 900 else WindowHeight b),
       SelectionMethod := (if SelectionMethod b = [] then ''auto'' else SelectionMethod b),
       SelectionTimeoutMs := (if SelectionTimeoutMs b = 0 then 1000 else SelectionTimeoutMs b)\<rparr>"

text \<open>
  One constructor for each place where the source builds an error; \<open>ErrSql\<close> is an
  error returned by the database driver. A constructor with an argument of type
  \<open>error\<close> wraps the error it was built from.
\<close>

datatype error =
    ErrInvalidSelectionType string
  | ErrXselFailed
  | ErrSelectionManual
  | ErrSelectionEmpty string
  | ErrNoSelection
  | ErrTimeoutNewWindow
  | ErrStartFirefox
  | ErrDetectNewWindow error
  | ErrDbNotInitialized
  | ErrSql
  | ErrWindowList
  | ErrActiveWindow
  | ErrCheckStatus error
  | ErrCloseWindow

text \<open>
  The lines written to the log, one constructor for each \<^verbatim>\<open>log.Printf\<close> of the
  modelled functions, with the values it prints. \<open>LogCaptured\<close> carries the selection
  type (printed in upper case), the number of bytes captured and, when
  \<^verbatim>\<open>log_selections\<close> is set, their first 30 bytes.
\<close>

datatype logline =
    LogCaptured string nat "string option"
  | LogDetected string
  | LogUnmaximizeFailed string
  | LogPositionFailed string
  | LogPositioned int int int int
  | LogTrackWarning error
  | LogRemoveDeadWarning string error
  | LogCleanedUp string
  | LogActiveWindowFailed
  | LogCleanupWarning error
  | LogUntrackWarning error
  | LogClosed string string

text \<open>
  What a run does to the outside: the external commands it starts, with their
  arguments, and the log lines it writes.
\<close>

datatype event = Exec string "string list" | Log logline

section \<open>Selection capture resolver\<close>

text \<open>
  \<^verbatim>\<open>exec.Command(...).Output()\<close> waits for the process to exit. A call either never
  returns, or returns after some milliseconds with a value. The behaviour of \<^verbatim>\<open>xsel\<close>
  is an input of the model: for each argument list, whether it exits, after how long,
  and with its output (\<open>Some\<close>) or with a failure (\<open>None\<close>).
\<close>

datatype 'a blocking = Never | After nat 'a

type_synonym xsel_tool = "string list \<Rightarrow> string option blocking"

definition readXSelection :: "xsel_tool \<Rightarrow> string \<Rightarrow> (error + string) blocking" where
  "readXSelection xsel selectionType =
     (case (if selectionType = ''primary'' then Some [''-p'']
            else if selectionType = ''clipboard'' then Some [''-c'']
            else None) of
        None \<Rightarrow> After 0 (Inl (ErrInvalidSelectionType selectionType))
      | Some args \<Rightarrow>
          (case xsel args of
             Never \<Rightarrow> Never
           | After t None \<Rightarrow> After t (Inl ErrXselFailed)
           | After t (Some output) \<Rightarrow> After t (Inr output)))"

definition capturedLine :: "Behavior \<Rightarrow> string \<Rightarrow> string \<Rightarrow> logline" where
  "capturedLine b selectionType trimmed =
     (if LogSelections b
      then LogCaptured selectionType (length trimmed)
             (Some (take (min 30 (length trimmed)) trimmed))
      else LogCaptured selectionType (length trimmed) None)"

definition captureFromSelection ::
  "Behavior \<Rightarrow> xsel_tool \<Rightarrow> string \<Rightarrow> (logline list \<times> (error + string)) blocking" where
  "captureFromSelection b xsel selectionType =
     (case readXSelection xsel selectionType of
        Never \<Rightarrow> Never
      | After t (Inl err) \<Rightarrow> After t ([], Inl err)
      | After t (Inr text) \<Rightarrow>
          (let trimmed = TrimSpace text in
           if trimmed = [] then After t ([], Inl (ErrSelectionEmpty selectionType))
           else After t ([capturedLine b selectionType trimmed], Inr trimmed)))"

definition captureSelectionSafely ::
  "Behavior \<Rightarrow> xsel_tool \<Rightarrow> (logline list \<times> (error + string)) blocking" where
  "captureSelectionSafely b xsel =
     (let method = SelectionMethod b in
      if method = ''manual'' then After 0 ([], Inl ErrSelectionManual)
      else if method = ''primary'' then captureFromSelection b xsel ''primary''
      else if method = ''clipboard'' then captureFromSelection b xsel ''clipboard''
      else
        (case captureFromSelection b xsel ''primary'' of
           Never \<Rightarrow> Never
         | After t1 (l1, Inr text) \<Rightarrow> After t1 (l1, Inr text)
         | After t1 (l1, Inl err1) \<Rightarrow>
             (case captureFromSelection b xsel ''clipboard'' of
                Never \<Rightarrow> Never
              | After t2 (l2, Inr text) \<Rightarrow> After (t1 + t2) (l1 @ l2, Inr text)
              | After t2 (l2, Inl err2) \<Rightarrow> After (t1 + t2) (l1 @ l2, Inl ErrNoSelection))))"

text \<open>
  A read of a selection fails when \<^verbatim>\<open>xsel\<close> exits with a failure or prints nothing but
  white space.
\<close>

definition readFails :: "string option \<Rightarrow> bool" where
  "readFails r = (case r of None \<Rightarrow> True | Some text \<Rightarrow> TrimSpace text = [])"

text \<open>The \<^verbatim>\<open>Behavior\<close> of a configuration file that sets none of its fields.\<close>

definition unsetBehavior :: Behavior where
  "unsetBehavior =
     \<lparr>AutoCopyDelayMs = 0, MaxWindows = 0, WindowWidth = 0, WindowHeight = 0,
      FirefoxProfile = [], SelectionMethod = [], SelectionTimeoutMs = 0,
      LogSelections = False\<rparr>"

section \<open>Research window registry\<close>

text \<open>
  The table \<^verbatim>\<open>research_windows (window_id TEXT PRIMARY KEY, created_at DATETIME)\<close> is a
  list of rows in the order of the table; text keys compare byte by byte. The state of
  a run is the database handle with the table behind it (\<open>None\<close> when the global
  \<^verbatim>\<open>db\<close> is nil) and the events the run has produced so far, oldest first.
\<close>

type_synonym row = "string \<times> nat"

record sys =
  db :: "row list option"
  trace :: "event list"

definition emit :: "event \<Rightarrow> sys \<Rightarrow> sys" where
  "emit ev s = s\<lparr>trace := trace s @ [ev]\<rparr>"

text \<open>
  The four SQL statements of the tracker. \<^verbatim>\<open>INSERT OR REPLACE\<close> deletes the row that
  holds the key, if there is one, and appends the new row. The query
  \<^verbatim>\<open>SELECT window_id FROM research_windows\<close> has no \<^verbatim>\<open>ORDER BY\<close>; SQLite answers it
  from the index of the primary key, so the IDs come in the order of the keys, byte
  by byte, and not in the order in which the rows were inserted.
\<close>

definition sqlInsertOrReplace :: "string \<Rightarrow> nat \<Rightarrow> row list \<Rightarrow> row list" where
  "sqlInsertOrReplace k t rows = filter (\<lambda>r. fst r \<noteq> k) rows @ [(k, t)]"

definition sqlDelete :: "string \<Rightarrow> row list \<Rightarrow> row list" where
  "sqlDelete k rows = filter (\<lambda>r. fst r \<noteq> k) rows"

definition sqlSelectWindowIds :: "row list \<Rightarrow> string list" where
  "sqlSelectWindowIds rows = sort (map fst rows)"

definition sqlCount :: "string \<Rightarrow> row list \<Rightarrow> nat" where
  "sqlCount k rows = length (filter (\<lambda>r. fst r = k) rows)"

text \<open>
  Whether a statement succeeds is an input of the model (\<open>exec_ok\<close>, \<open>query_ok\<close>,
  \<open>scan_ok\<close> for the scan of one row); a statement that fails changes nothing. The
  time \<open>now\<close> is the value of \<^verbatim>\<open>time.Now()\<close>. In the registry and the two flows
  below, a statement or an external command always comes back, with success or with
  a failure; only for \<^verbatim>\<open>xsel\<close> above the case that it never does is modelled.
\<close>

definition addResearchWindow :: "bool \<Rightarrow> nat \<Rightarrow> string \<Rightarrow> sys \<Rightarrow> error option \<times> sys" where
  "addResearchWindow exec_ok now wid s =
     (case db s of
        None \<Rightarrow> (Some ErrDbNotInitialized, s)
      | Some rows \<Rightarrow>
          (let normalizedWID = normalizeWindowID wid in
           if exec_ok then (None, s\<lparr>db := Some (sqlInsertOrReplace normalizedWID now rows)\<rparr>)
           else (Some ErrSql, s)))"

definition getResearchWindows :: "bool \<Rightarrow> (string \<Rightarrow> bool) \<Rightarrow> sys \<Rightarrow> error + string list" where
  "getResearchWindows query_ok scan_ok s =
     (case db s of
        None \<Rightarrow> Inl ErrDbNotInitialized
      | Some rows \<Rightarrow>
          if query_ok then Inr (filter scan_ok (sqlSelectWindowIds rows))
          else Inl ErrSql)"

definition removeResearchWindow :: "bool \<Rightarrow> string \<Rightarrow> sys \<Rightarrow> error option \<times> sys" where
  "removeResearchWindow exec_ok wid s =
     (case db s of
        None \<Rightarrow> (Some ErrDbNotInitialized, s)
      | Some rows \<Rightarrow>
          (let normalizedWID = normalizeWindowID wid in
           if exec_ok then (None, s\<lparr>db := Some (sqlDelete normalizedWID rows)\<rparr>)
           else (Some ErrSql, s)))"

text \<open>
  The creation time stored for a key, and a sequence of further upserts of one ID,
  each with its own outcome and time.
\<close>

definition createdAt :: "sys \<Rightarrow> string \<Rightarrow> nat option" where
  "createdAt s k = (case db s of None \<Rightarrow> None | Some rows \<Rightarrow> map_of rows k)"

fun upsertAll :: "string \<Rightarrow> (bool \<times> nat) list \<Rightarrow> sys \<Rightarrow> sys" where
  "upsertAll wid [] s = s"
| "upsertAll wid ((ok, t) # rest) s = upsertAll wid rest (snd (addResearchWindow ok t wid s))"

section \<open>Registry reconciler\<close>

text \<open>
  What the outside answers during one run of \<^verbatim>\<open>cleanupDeadWindows\<close>: whether the
  query and the scan of each row succeed, the output of \<^verbatim>\<open>wmctrl -l\<close> (\<open>None\<close> when
  the command fails), and whether the delete of each dead window succeeds.
\<close>

record cleanup_env =
  select_ok :: bool
  scan_ok :: "string \<Rightarrow> bool"
  wmctrl_list :: "string option"
  delete_ok :: "string \<Rightarrow> bool"

text \<open>The keys of the map \<^verbatim>\<open>currentWIDs\<close>: the first field of every non-empty line.\<close>

definition currentWIDs :: "string \<Rightarrow> string set" where
  "currentWIDs out =
     set (concat (map (\<lambda>line. if line = [] then []
                              else (case Fields line of [] \<Rightarrow> [] | p # ps \<Rightarrow> [p]))
                      (splitLines out)))"

fun removeDead :: "(string \<Rightarrow> bool) \<Rightarrow> string set \<Rightarrow> string list \<Rightarrow> sys \<Rightarrow> sys" where
  "removeDead del_ok current [] s = s"
| "removeDead del_ok current (wid # wids) s =
     (if wid \<in> current then removeDead del_ok current wids s
      else (case removeResearchWindow (del_ok wid) wid s of
              (Some err, s') \<Rightarrow>
                removeDead del_ok current wids (emit (Log (LogRemoveDeadWarning wid err)) s')
            | (None, s') \<Rightarrow>
                removeDead del_ok current wids (emit (Log (LogCleanedUp wid)) s')))"

definition cleanupDeadWindows :: "cleanup_env \<Rightarrow> sys \<Rightarrow> error option \<times> sys" where
  "cleanupDeadWindows e s =
     (case db s of
        None \<Rightarrow> (Some ErrDbNotInitialized, s)
      | Some rows \<Rightarrow>
          if select_ok e then
            (let storedWIDs = filter (scan_ok e) (sqlSelectWindowIds rows);
                 s1 = emit (Exec ''wmctrl'' [''-l'']) s
             in case wmctrl_list e of
                  None \<Rightarrow> (Some ErrWindowList, s1)
                | Some out \<Rightarrow>
                    (None, removeDead (delete_ok e) (currentWIDs out) storedWIDs s1))
          else (Some ErrSql, s))"

text \<open>
  The reconciler as the specification words it, to compare the code with: the stored
  ID goes through \<open>stored_form\<close> and the live IDs go through \<open>live_form\<close> before
  the membership test; everything else is as in \<^verbatim>\<open>cleanupDeadWindows\<close>. With the
  normalizer for both, the test is made on normalized forms on both sides.
\<close>

fun removeDeadOn ::
  "(string \<Rightarrow> string) \<Rightarrow> (string \<Rightarrow> string) \<Rightarrow> (string \<Rightarrow> bool) \<Rightarrow> string set
   \<Rightarrow> string list \<Rightarrow> sys \<Rightarrow> sys" where
  "removeDeadOn stored_form live_form del_ok current [] s = s"
| "removeDeadOn stored_form live_form del_ok current (wid # wids) s =
     (if stored_form wid \<in> live_form ` current
      then removeDeadOn stored_form live_form del_ok current wids s
      else (case removeResearchWindow (del_ok wid) wid s of
              (Some err, s') \<Rightarrow>
                removeDeadOn stored_form live_form del_ok current wids
                  (emit (Log (LogRemoveDeadWarning wid err)) s')
            | (None, s') \<Rightarrow>
                removeDeadOn stored_form live_form del_ok current wids
                  (emit (Log (LogCleanedUp wid)) s')))"

definition reconcileOn ::
  "(string \<Rightarrow> string) \<Rightarrow> (string \<Rightarrow> string) \<Rightarrow> cleanup_env \<Rightarrow> sys \<Rightarrow> error option \<times> sys" where
  "reconcileOn stored_form live_form e s =
     (case db s of
        None \<Rightarrow> (Some ErrDbNotInitialized, s)
      | Some rows \<Rightarrow>
          if select_ok e then
            (let storedWIDs = filter (scan_ok e) (sqlSelectWindowIds rows);
                 s1 = emit (Exec ''wmctrl'' [''-l'']) s
             in case wmctrl_list e of
                  None \<Rightarrow> (Some ErrWindowList, s1)
                | Some out \<Rightarrow>
                    (None, removeDeadOn stored_form live_form (delete_ok e) (currentWIDs out)
                             storedWIDs s1))
          else (Some ErrSql, s))"



text \<open>
  Example inputs: an outside where every statement succeeds and \<^verbatim>\<open>wmctrl -l\<close> prints
  \<open>out\<close>; a listing of two windows; a listing whose window ID is written in decimal.
\<close>

definition cleanupAllOk :: "string \<Rightarrow> cleanup_env" where
  "cleanupAllOk out =
     \<lparr>select_ok = True, scan_ok = (\<lambda>w. True), wmctrl_list = Some out, delete_ok = (\<lambda>w. True)\<rparr>"

definition listingBD :: string where
  "listingBD = ''0x00000002  0 host B\<newline>0x00000004  0 host D\<newline>''"

definition listingDecimal :: string where
  "listingDecimal = ''123  0 host Mozilla Firefox\<newline>''"

section \<open>Lifecycle orchestrator: closing\<close>

text \<open>
  What the outside answers during one run of \<^verbatim>\<open>closeActiveResearchWindow\<close>. The
  error of \<^verbatim>\<open>xdotool getwindowname\<close> is discarded by the source, so only its output is
  an input.
\<close>

record close_env =
  getactivewindow :: "string option"
  cleanup :: cleanup_env
  count_ok :: bool
  getwindowname :: string
  windowclose_ok :: bool
  untrack_ok :: bool

definition closeActiveResearchWindow :: "close_env \<Rightarrow> sys \<Rightarrow> error option \<times> sys" where
  "closeActiveResearchWindow e s0 =
     (let s1 = emit (Exec ''xdotool'' [''getactivewindow'']) s0 in
      case getactivewindow e of
        None \<Rightarrow> (Some ErrActiveWindow, emit (Log LogActiveWindowFailed) s1)
      | Some out \<Rightarrow>
          (let activeWID = TrimSpace out;
               normalizedActiveWID = normalizeWindowID activeWID;
               s2 = (case cleanupDeadWindows (cleanup e) s1 of
                       (Some err, s') \<Rightarrow> emit (Log (LogCleanupWarning err)) s'
                     | (None, s') \<Rightarrow> s')
           in case db s2 of
                None \<Rightarrow> (Some ErrDbNotInitialized, s2)
              | Some rows \<Rightarrow>
                  if count_ok e then
                    (if sqlCount normalizedActiveWID rows = 0 then (None, s2)
                     else
                       (let s3 = emit (Exec ''xdotool'' [''getwindowname'', activeWID]) s2;
                            windowName = TrimSpace (getwindowname e);
                            s4 = emit (Exec ''xdotool'' [''windowclose'', activeWID]) s3
                        in if windowclose_ok e then
                             (let s5 = (case removeResearchWindow (untrack_ok e) activeWID s4 of
                                          (Some err, s') \<Rightarrow> emit (Log (LogUntrackWarning err)) s'
                                        | (None, s') \<Rightarrow> s')
                              in (None, emit (Log (LogClosed normalizedActiveWID windowName)) s5))
                           else (Some ErrCloseWindow, s4)))
                  else (Some (ErrCheckStatus ErrSql), s2)))"

text \<open>
  The state in which the membership query of a close request runs: the state that
  the reconcile step leaves. \<^verbatim>\<open>main\<close> ends the process with status 1 when the
  command returns an error, and with status 0 otherwise; the \<^verbatim>\<open>close\<close> command
  returns the error of \<^verbatim>\<open>closeActiveResearchWindow\<close>, and the \<^verbatim>\<open>search\<close> command
  returns the error of \<^verbatim>\<open>openBrowserInSideWindow\<close>, wrapped by \<^verbatim>\<open>handleSearch\<close>.
\<close>

definition reconciled :: "close_env \<Rightarrow> sys \<Rightarrow> sys" where
  "reconciled e s =
     snd (cleanupDeadWindows (cleanup e) (emit (Exec ''xdotool'' [''getactivewindow'']) s))"

definition main_exit :: "error option \<Rightarrow> nat" where
  "main_exit err = (case err of None \<Rightarrow> 0 | Some e \<Rightarrow> 1)"

text \<open>The number of \<^verbatim>\<open>xdotool windowclose\<close> calls among some events.\<close>

definition isWindowClose :: "event \<Rightarrow> bool" where
  "isWindowClose ev =
     (case ev of
        Exec cmd args \<Rightarrow> cmd = ''xdotool'' \<and> take 1 args = [''windowclose'']
      | Log l \<Rightarrow> False)"

definition windowCloseCalls :: "event list \<Rightarrow> nat" where
  "windowCloseCalls evs = length (filter isWindowClose evs)"

text \<open>
  Example input: the active window is \<open>active\<close>, the reconcile step works and sees
  the listing of two windows, and the three flags say whether the membership query,
  the external close and the final delete succeed.
\<close>

definition closeEnv :: "string \<Rightarrow> bool \<Rightarrow> bool \<Rightarrow> bool \<Rightarrow> close_env" where
  "closeEnv active cnt wc ut =
     \<lparr>getactivewindow = Some active, cleanup = cleanupAllOk listingBD, count_ok = cnt,
      getwindowname = ''Research'', windowclose_ok = wc, untrack_ok = ut\<rparr>"

section \<open>New-window detector and the opening flow\<close>

text \<open>
  The normalized IDs of the lines of a \<^verbatim>\<open>wmctrl -l\<close> listing that contain
  \<^verbatim>\<open>Mozilla Firefox\<close>, in the order of the lines. The source has this loop twice: to
  take the snapshot before the launch, and in every poll.
\<close>

definition firefoxWIDs :: "string \<Rightarrow> string list" where
  "firefoxWIDs out =
     concat (map (\<lambda>line. if Contains line ''Mozilla Firefox''
                          then (case Fields line of [] \<Rightarrow> [] | p # ps \<Rightarrow> [normalizeWindowID p])
                          else [])
                 (splitLines out))"

text \<open>
  The polling loop. Times are in milliseconds. The \<open>i\<close>-th poll is an input: the
  output of \<^verbatim>\<open>wmctrl -l\<close> (\<open>None\<close> when the command fails) and the time that the
  iteration takes beyond the 100 ms it sleeps. The loop ends because every iteration
  that does not return advances the clock by at least 100 ms.
\<close>

function waitLoop ::
  "(nat \<Rightarrow> nat \<times> string option) \<Rightarrow> string set \<Rightarrow> nat \<Rightarrow> nat \<Rightarrow> nat \<Rightarrow> sys
   \<Rightarrow> (error + string) \<times> sys" where
  "waitLoop polls beforeWIDs timeout now i s =
     (if now < timeout then
        (case snd (polls i) of
           None \<Rightarrow>
             waitLoop polls beforeWIDs timeout (now + fst (polls i) + 100) (Suc i)
               (emit (Exec ''wmctrl'' [''-l'']) s)
         | Some out \<Rightarrow>
             (case find (\<lambda>wid. wid \<notin> beforeWIDs) (firefoxWIDs out) of
                Some wid \<Rightarrow> (Inr wid, emit (Exec ''wmctrl'' [''-l'']) s)
              | None \<Rightarrow>
                  waitLoop polls beforeWIDs timeout (now + fst (polls i) + 100) (Suc i)
                    (emit (Exec ''wmctrl'' [''-l'']) s)))
      else (Inl ErrTimeoutNewWindow, s))"
  by pat_completeness auto
termination
  by (relation "measure (\<lambda>(polls, beforeWIDs, timeout, now, i, s). timeout - now)") auto

declare waitLoop.simps [simp del]

definition waitForNewFirefoxWindow ::
  "(nat \<Rightarrow> nat \<times> string option) \<Rightarrow> nat \<Rightarrow> string set \<Rightarrow> sys \<Rightarrow> (error + string) \<times> sys" where
  "waitForNewFirefoxWindow polls now beforeWIDs s =
     waitLoop polls beforeWIDs (now + 5000) now 0 s"

text \<open>
  \<^verbatim>\<open>getScreenDimensions\<close>: the output of \<^verbatim>\<open>xdpyinfo\<close> (\<open>None\<close> when it fails) and the
  result of \<^verbatim>\<open>fmt.Sscanf\<close> on the first line that contains \<^verbatim>\<open>dimensions:\<close> are inputs.
\<close>

definition getScreenDimensions :: "string option \<Rightarrow> (string \<Rightarrow> int \<times> int) \<Rightarrow> int \<times> int" where
  "getScreenDimensions xdpyinfo sscanf =
     (case xdpyinfo of
        None \<Rightarrow> (1920, 1080)
      | Some out \<Rightarrow>
          (case find (\<lambda>line. Contains line ''dimensions:'') (splitLines out) of
             Some line \<Rightarrow> sscanf line
           | None \<Rightarrow> (1920, 1080)))"

text \<open>
  What the outside answers during one run of \<^verbatim>\<open>openBrowserInSideWindow\<close>:
  the listing before the launch, whether Firefox starts, the time at which the wait
  begins and the polls, the screen size, whether the two positioning commands and the
  insert into the registry succeed, and the time of the insert.
\<close>

record open_env =
  wmctrl_before :: "string option"
  firefox_start_ok :: bool
  wait_start :: nat
  polls :: "nat \<Rightarrow> nat \<times> string option"
  xdpyinfo :: "string option"
  sscanf_dimensions :: "string \<Rightarrow> int \<times> int"
  unmaximize_ok :: bool
  position_ok :: bool
  track_ok :: bool
  track_time :: nat

text \<open>
  The snapshot taken before the launch (empty when the listing fails), and the
  arguments of the Firefox command.
\<close>

definition snapshotBefore :: "string option \<Rightarrow> string set" where
  "snapshotBefore listing =
     (case listing of
        None \<Rightarrow> {}
      | Some out \<Rightarrow> set (firefoxWIDs out))"

definition firefoxArgs :: "Behavior \<Rightarrow> string \<Rightarrow> string list" where
  "firefoxArgs b finalURL =
     (if FirefoxProfile b = [] then [''--new-window'', finalURL]
      else [''--new-window'', ''--profile'', FirefoxProfile b, finalURL])"

text \<open>A poll shows no new window: it fails, or every Firefox window it lists is in the snapshot.\<close>

definition noNewWindow :: "string set \<Rightarrow> string option \<Rightarrow> bool" where
  "noNewWindow beforeWIDs res =
     (case res of
        None \<Rightarrow> True
      | Some out \<Rightarrow> find (\<lambda>wid. wid \<notin> beforeWIDs) (firefoxWIDs out) = None)"

text \<open>The value of a 64-bit signed computation whose exact result is \<open>v\<close>.\<close>

definition wrap64 :: "int \<Rightarrow> int" where
  "wrap64 v = (v + 2 ^ 63) mod 2 ^ 64 - 2 ^ 63"

definition openBrowserInSideWindow ::
  "Behavior \<Rightarrow> open_env \<Rightarrow> string \<Rightarrow> string \<Rightarrow> sys \<Rightarrow> error option \<times> sys" where
  "openBrowserInSideWindow b e searchURL query s0 =
     (let finalURL = ReplaceAll_placeholder searchURL (QueryEscape query);
          s1 = emit (Exec ''wmctrl'' [''-l'']) s0;
          beforeWIDs = snapshotBefore (wmctrl_before e);
          s2 = emit (Exec ''firefox'' (firefoxArgs b finalURL)) s1
      in if firefox_start_ok e then
           (case waitForNewFirefoxWindow (polls e) (wait_start e) beforeWIDs s2 of
              (Inl err, s3) \<Rightarrow> (Some (ErrDetectNewWindow err), s3)
            | (Inr firefoxWID, s3) \<Rightarrow>
                (let s4 = emit (Log (LogDetected firefoxWID)) s3;
                     s5 = emit (Exec ''xdpyinfo'' []) s4;
                     screenWidth = fst (getScreenDimensions (xdpyinfo e) (sscanf_dimensions e));
                     rightMargin = 120;
                     topMargin = 80;
                     xPos = wrap64 (screenWidth - WindowWidth b - rightMargin);
                     yPos = topMargin;
                     s6 = emit (Exec ''wmctrl'' [''-i'', ''-r'', firefoxWID, ''-b'',
                                  ''remove,maximized_vert,maximized_horz'']) s5;
                     s7 = (if unmaximize_ok e then s6
                           else emit (Log (LogUnmaximizeFailed firefoxWID)) s6);
                     s8 = emit (Exec ''wmctrl'' [''-i'', ''-r'', firefoxWID, ''-e'',
                                  ''0,'' @ fmtDec xPos @ '','' @ fmtDec yPos @ '','' @
                                  fmtDec (WindowWidth b) @ '','' @ fmtDec (WindowHeight b)]) s7;
                     s9 = (if position_ok e
                           then emit (Log (LogPositioned xPos yPos (WindowWidth b) (WindowHeight b))) s8
                           else emit (Log (LogPositionFailed firefoxWID)) s8);
                     s10 = (case addResearchWindow (track_ok e) (track_time e) firefoxWID s9 of
                              (Some err, s') \<Rightarrow> emit (Log (LogTrackWarning err)) s'
                            | (None, s') \<Rightarrow> s')
                 in (None, s10)))
         else (Some ErrStartFirefox, s2))"

text \<open>
  Example inputs: a listing with one Firefox window, and an outside where Firefox
  starts and everything after the detection works, with the snapshot listing and
  the polls given.
\<close>

definition listingFirefox :: string where
  "listingFirefox = ''0x03e00003  0 host Mozilla Firefox\<newline>''"

definition openEnv :: "string option \<Rightarrow> (nat \<Rightarrow> nat \<times> string option) \<Rightarrow> open_env" where
  "openEnv before pl =
     \<lparr>wmctrl_before = before, firefox_start_ok = True, wait_start = 0, polls = pl,
      xdpyinfo = None, sscanf_dimensions = (\<lambda>line. (0, 0)), unmaximize_ok = True,
      position_ok = True, track_ok = True, track_time = 0\<rparr>"

section \<open>Properties of the normalizer\<close>

lemma replicate_numeral:
  "replicate (numeral k) x = x # replicate (pred_numeral k) x"
  by (simp add: numeral_eq_Suc)

lemmas normalize_eval =
  normalizeWindowID_def Atoi_def isDigit_def Sprintf_0x08x_def zeroPad_def
  fmtHex.simps ldigits_def replicate_numeral

lemma normalize_hex_prefixed: "normalizeWindowID (''0x'' @ rest) = ''0x'' @ rest"
  by (simp add: normalizeWindowID_def)

lemma normalize_idempotent: "normalizeWindowID (normalizeWindowID w) = normalizeWindowID w"
proof (cases "prefix ''0x'' w")
  case True
  then show ?thesis by (simp add: normalizeWindowID_def)
next
  case False
  show ?thesis
  proof (cases "Atoi w")
    case None
    then show ?thesis using False by (simp add: normalizeWindowID_def)
  next
    case (Some v)
    then have "normalizeWindowID w = Sprintf_0x08x v"
      using False by (simp add: normalizeWindowID_def)
    moreover have "prefix ''0x'' (Sprintf_0x08x v)"
      by (simp add: Sprintf_0x08x_def)
    ultimately show ?thesis
      by (simp add: normalizeWindowID_def)
  qed
qed

lemma parseDigits_foldl:
  "list_all isDigit s \<Longrightarrow>
   parseDigits n s = Some (foldl (\<lambda>a ch. a * 10 + (of_char ch - 48)) n s)"
  by (induction s arbitrary: n) simp_all

lemma Atoi_digits:
  assumes "d \<noteq> []" and "list_all isDigit d" and "decimalValue d < 2 ^ 63"
  shows "Atoi d = Some (int (decimalValue d))"
proof -
  obtain c cs where d: "d = c # cs"
    using assms(1) by (cases d) auto
  have "isDigit c"
    using assms(2) d by simp
  then have nosign: "c \<noteq> CHR ''-''" "c \<noteq> CHR ''+''"
    by (auto simp: isDigit_def)
  have "parseDigits 0 d = Some (decimalValue d)"
    using parseDigits_foldl [OF assms(2)] by (simp add: decimalValue_def)
  then show ?thesis
    using nosign assms(3) d by (simp add: Atoi_def)
qed

lemma digits_not_hex_prefixed:
  assumes "list_all isDigit d"
  shows "\<not> prefix ''0x'' d"
proof
  assume "prefix ''0x'' d"
  then obtain r where "d = ''0x'' @ r"
    by (auto simp: prefix_def)
  then have "isDigit CHR ''x''"
    using assms by simp
  then show False
    by (simp add: isDigit_def)
qed

lemma normalize_decimal:
  assumes "d \<noteq> []" and "list_all isDigit d" and "decimalValue d < 2 ^ 63"
  shows "normalizeWindowID d = ''0x'' @ zeroPad 8 (fmtHex (decimalValue d))"
  using Atoi_digits [OF assms] digits_not_hex_prefixed [OF assms(2)]
  by (simp add: normalizeWindowID_def Sprintf_0x08x_def)

lemma ldigits_nth_value:
  assumes "isLowerHex ch"
  shows "hexDigitValue ch < 16 \<and> ldigits ! hexDigitValue ch = ch"
proof -
  have "ch \<in> set ''0123456789abcdef''"
    using assms by (simp add: isLowerHex_def ldigits_def)
  then show ?thesis
    by (auto simp: hexDigitValue_def isDigit_def ldigits_def)
qed

lemma fmtHex_snoc:
  assumes "v < 16"
  shows "fmtHex (m * 16 + v) = (if m = 0 then [ldigits ! v] else fmtHex m @ [ldigits ! v])"
proof (cases "m = 0")
  case True
  then show ?thesis
    using assms by (simp add: fmtHex.simps)
next
  case False
  then have "\<not> m * 16 + v < 16"
    by simp
  moreover have "(m * 16 + v) div 16 = m" and "(m * 16 + v) mod 16 = v"
    using assms by simp_all
  ultimately show ?thesis
    using False by (subst fmtHex.simps) simp
qed

lemma hexValue_snoc: "hexValue (ys @ [ch]) = hexValue ys * 16 + hexDigitValue ch"
  by (simp add: hexValue_def)

lemma zeroPad_fmtHex_hexValue:
  "hs \<noteq> [] \<Longrightarrow> list_all isLowerHex hs \<Longrightarrow> zeroPad (length hs) (fmtHex (hexValue hs)) = hs"
proof (induction hs rule: rev_induct)
  case Nil
  then show ?case by simp
next
  case (snoc ch ys)
  have ch: "hexDigitValue ch < 16" "ldigits ! hexDigitValue ch = ch"
    using snoc.prems(2) ldigits_nth_value by simp_all
  show ?case
  proof (cases "ys = []")
    case True
    then show ?thesis
      using ch by (simp add: hexValue_def zeroPad_def fmtHex.simps)
  next
    case False
    then have ih: "zeroPad (length ys) (fmtHex (hexValue ys)) = ys"
      using snoc by simp
    show ?thesis
    proof (cases "hexValue ys = 0")
      case True
      have "fmtHex 0 = ''0''"
        by (simp add: fmtHex.simps ldigits_def)
      then have "replicate (length ys - 1) CHR ''0'' @ ''0'' = ys"
        using ih True by (simp add: zeroPad_def)
      then have "replicate (length ys) CHR ''0'' = ys"
        using False
        by (metis One_nat_def Suc_pred length_greater_0_conv replicate_Suc replicate_app_Cons_same append_Nil2 replicate_append_same)
      then show ?thesis
        using True ch fmtHex_snoc [OF ch(1), of "hexValue ys"]
        by (simp add: hexValue_snoc zeroPad_def)
    next
      case nz: False
      have "fmtHex (hexValue ys * 16 + hexDigitValue ch) = fmtHex (hexValue ys) @ [ch]"
        using nz ch fmtHex_snoc [OF ch(1), of "hexValue ys"] by simp
      then show ?thesis
        using ih by (simp add: hexValue_snoc zeroPad_def)
    qed
  qed
qed

lemma hexValue_bound:
  "list_all isLowerHex hs \<Longrightarrow> hexValue hs < 16 ^ length hs"
proof (induction hs rule: rev_induct)
  case Nil
  then show ?case by (simp add: hexValue_def)
next
  case (snoc ch ys)
  have "hexDigitValue ch < 16"
    using snoc.prems ldigits_nth_value by simp
  moreover have "hexValue ys < 16 ^ length ys"
    using snoc by simp
  ultimately show ?case
    by (simp add: hexValue_snoc)
qed

text \<open>
  Claim C10. The normalizer returns every input that already carries the prefix
  \<^verbatim>\<open>0x\<close> as it is, whatever follows the prefix, without padding it again. So two
  texts of one number can become different WindowIDs: \<^verbatim>\<open>0x7b\<close> stays \<^verbatim>\<open>0x7b\<close>,
  while the decimal \<^verbatim>\<open>123\<close> becomes \<^verbatim>\<open>0x0000007b\<close>. Both strings denote the number
  123, and the two results differ.
\<close>

theorem normalize_prefixed_not_repadded:
  "normalizeWindowID (''0x'' @ rest) = ''0x'' @ rest \<and>
   normalizeWindowID ''0x7b'' = ''0x7b'' \<and>
   normalizeWindowID ''123'' = ''0x0000007b'' \<and>
   hexValue ''7b'' = decimalValue ''123'' \<and>
   normalizeWindowID ''0x7b'' \<noteq> normalizeWindowID ''123''"
proof -
  have "normalizeWindowID ''0x7b'' = ''0x7b'' \<and>
      normalizeWindowID ''123'' = ''0x0000007b'' \<and>
      hexValue ''7b'' = decimalValue ''123'' \<and>
      normalizeWindowID ''0x7b'' \<noteq> normalizeWindowID ''123''"
    by (simp add: normalize_eval hexValue_def decimalValue_def hexDigitValue_def)
  then show ?thesis
    using normalize_hex_prefixed [of rest] by blast
qed

text \<open>
  Claim C6. Let \<open>d\<close> be a non-empty string of decimal digits and \<open>h\<close> the prefix
  \<^verbatim>\<open>0x\<close> followed by eight lower-case hexadecimal digits \<open>hs\<close> that denote the same
  number as \<open>d\<close>. Then the normalizer maps \<open>d\<close> and \<open>h\<close> to the same WindowID, which
  is \<open>h\<close> itself: the decimal string is turned into the prefixed, zero-padded form of
  eight digits, and a string that already carries the prefix is returned unchanged.
\<close>

theorem normalize_decimal_eq_hex:
  assumes "d \<noteq> []" and "list_all isDigit d"
    and "length hs = 8" and "list_all isLowerHex hs"
    and "decimalValue d = hexValue hs"
  shows "normalizeWindowID d = normalizeWindowID (''0x'' @ hs) \<and>
         normalizeWindowID d = ''0x'' @ hs \<and>
         normalizeWindowID (''0x'' @ rest) = ''0x'' @ rest"
proof -
  have "hexValue hs < 16 ^ 8"
    using hexValue_bound [OF assms(4)] assms(3) by simp
  then have small: "decimalValue d < 2 ^ 63"
    using assms(5) by simp
  have "hs \<noteq> []"
    using assms(3) by auto
  then have "zeroPad 8 (fmtHex (hexValue hs)) = hs"
    using zeroPad_fmtHex_hexValue [OF _ assms(4)] assms(3) by simp
  then have "normalizeWindowID d = ''0x'' @ hs"
    using normalize_decimal [OF assms(1,2) small] assms(5) by simp
  then show ?thesis
    using normalize_hex_prefixed by simp
qed

theorem normalize_decimal_eq_hex_witness:
  "normalizeWindowID ''123'' = normalizeWindowID ''0x0000007b'' \<and>
   normalizeWindowID ''0000000123'' = ''0x0000007b'' \<and>
   normalizeWindowID ''0x7b'' = ''0x7b''"
proof -
  have h: "list_all isLowerHex ''0000007b''"
    by (simp add: isLowerHex_def ldigits_def)
  have v: "hexValue ''0000007b'' = 123"
    by (simp add: hexValue_def hexDigitValue_def isDigit_def)
  have a: "normalizeWindowID ''123'' = normalizeWindowID (''0x'' @ ''0000007b'')"
    using normalize_decimal_eq_hex [of "''123''" "''0000007b''"] h v
    by (simp add: isDigit_def decimalValue_def)
  have b: "normalizeWindowID ''0000000123'' = ''0x'' @ ''0000007b''"
    using normalize_decimal_eq_hex [of "''0000000123''" "''0000007b''"] h v
    by (simp add: isDigit_def decimalValue_def)
  have c: "normalizeWindowID (''0x'' @ ''7b'') = ''0x'' @ ''7b''"
    using normalize_decimal_eq_hex [of "''123''" "''0000007b''" "''7b''"] h v
    by (simp add: isDigit_def decimalValue_def)
  show ?thesis
    using a b c by simp
qed

section \<open>Properties of the selection capture resolver\<close>

lemma captureFromSelection_ok:
  assumes "xsel [if sel = ''primary'' then ''-p'' else ''-c''] = After t (Some text)"
    and "sel = ''primary'' \<or> sel = ''clipboard''"
    and "TrimSpace text \<noteq> []"
  shows "captureFromSelection b xsel sel =
           After t ([capturedLine b sel (TrimSpace text)], Inr (TrimSpace text))"
  using assms by (auto simp: captureFromSelection_def readXSelection_def Let_def)

lemma captureFromSelection_fails:
  assumes "xsel [if sel = ''primary'' then ''-p'' else ''-c''] = After t r"
    and "sel = ''primary'' \<or> sel = ''clipboard''"
    and "readFails r"
  shows "\<exists>err. captureFromSelection b xsel sel = After t ([], Inl err)"
  using assms
  by (cases r) (auto simp: captureFromSelection_def readXSelection_def readFails_def Let_def)

lemma capturedLine_timeout_unused:
  "capturedLine (b\<lparr>SelectionTimeoutMs := n\<rparr>) sel trimmed = capturedLine b sel trimmed"
  by (simp add: capturedLine_def)

lemma captureFromSelection_timeout_unused:
  "captureFromSelection (b\<lparr>SelectionTimeoutMs := n\<rparr>) xsel sel = captureFromSelection b xsel sel"
  unfolding captureFromSelection_def capturedLine_timeout_unused by (rule refl)

lemma captureSelectionSafely_timeout_unused:
  "captureSelectionSafely (b\<lparr>SelectionTimeoutMs := n\<rparr>) xsel = captureSelectionSafely b xsel"
proof -
  have "SelectionMethod (b\<lparr>SelectionTimeoutMs := n\<rparr>) = SelectionMethod b"
    by simp
  then show ?thesis
    unfolding captureSelectionSafely_def captureFromSelection_timeout_unused by simp
qed

text \<open>
  Claim C5. Under the policy \<^verbatim>\<open>auto\<close> the resolver reads the primary selection first
  and the clipboard second. A primary read that succeeds is the result, whatever the
  clipboard holds; when the primary read fails (a failure of the tool, or nothing but
  white space) and the clipboard read succeeds, the result is the trimmed text of the
  clipboard, logged as captured from the clipboard; when both reads fail the result is
  the error \<open>ErrNoSelection\<close>.
\<close>

theorem capture_auto_primary_then_clipboard:
  assumes "SelectionMethod b = ''auto''"
  shows "(xsel [''-p''] = After tp (Some p) \<and> TrimSpace p \<noteq> [] \<longrightarrow>
            captureSelectionSafely b xsel =
              After tp ([capturedLine b ''primary'' (TrimSpace p)], Inr (TrimSpace p))) \<and>
         (xsel [''-p''] = After tp rp \<and> readFails rp \<and>
          xsel [''-c''] = After tc (Some c) \<and> TrimSpace c \<noteq> [] \<longrightarrow>
            captureSelectionSafely b xsel =
              After (tp + tc) ([capturedLine b ''clipboard'' (TrimSpace c)], Inr (TrimSpace c))) \<and>
         (xsel [''-p''] = After tp rp \<and> readFails rp \<and>
          xsel [''-c''] = After tc rc \<and> readFails rc \<longrightarrow>
            captureSelectionSafely b xsel = After (tp + tc) ([], Inl ErrNoSelection))"
proof (intro conjI impI)
  assume a: "xsel [''-p''] = After tp (Some p) \<and> TrimSpace p \<noteq> []"
  have "captureFromSelection b xsel ''primary'' =
      After tp ([capturedLine b ''primary'' (TrimSpace p)], Inr (TrimSpace p))"
    using captureFromSelection_ok [of xsel "''primary''" tp p b] a by simp
  then show "captureSelectionSafely b xsel =
      After tp ([capturedLine b ''primary'' (TrimSpace p)], Inr (TrimSpace p))"
    using assms by (simp add: captureSelectionSafely_def)
next
  assume a: "xsel [''-p''] = After tp rp \<and> readFails rp \<and>
             xsel [''-c''] = After tc (Some c) \<and> TrimSpace c \<noteq> []"
  obtain err where p: "captureFromSelection b xsel ''primary'' = After tp ([], Inl err)"
    using captureFromSelection_fails [of xsel "''primary''" tp rp b] a by auto
  have c: "captureFromSelection b xsel ''clipboard'' =
      After tc ([capturedLine b ''clipboard'' (TrimSpace c)], Inr (TrimSpace c))"
    using captureFromSelection_ok [of xsel "''clipboard''" tc c b] a by simp
  show "captureSelectionSafely b xsel =
      After (tp + tc) ([capturedLine b ''clipboard'' (TrimSpace c)], Inr (TrimSpace c))"
    using assms p c by (simp add: captureSelectionSafely_def)
next
  assume a: "xsel [''-p''] = After tp rp \<and> readFails rp \<and>
             xsel [''-c''] = After tc rc \<and> readFails rc"
  obtain err1 where p: "captureFromSelection b xsel ''primary'' = After tp ([], Inl err1)"
    using captureFromSelection_fails [of xsel "''primary''" tp rp b] a by auto
  obtain err2 where c: "captureFromSelection b xsel ''clipboard'' = After tc ([], Inl err2)"
    using captureFromSelection_fails [of xsel "''clipboard''" tc rc b] a by auto
  show "captureSelectionSafely b xsel = After (tp + tc) ([], Inl ErrNoSelection)"
    using assms p c by (simp add: captureSelectionSafely_def)
qed

text \<open>
  The example of the specification: the primary selection holds white space only, the
  clipboard holds \<^verbatim>\<open>foo\<close>; the result is \<^verbatim>\<open>foo\<close>, logged as captured from the
  clipboard.
\<close>

theorem capture_auto_primary_then_clipboard_witness:
  "captureSelectionSafely (loadConfig_defaults unsetBehavior)
     (\<lambda>args. if args = [''-p''] then After 3 (Some '' \<newline>'') else After 4 (Some ''foo''))
   = After 7 ([LogCaptured ''clipboard'' 3 None], Inr ''foo'')"
proof -
  let ?xsel = "\<lambda>args :: string list.
    if args = [''-p''] then After 3 (Some '' \<newline>'') else After 4 (Some ''foo'')"
  have m: "SelectionMethod (loadConfig_defaults unsetBehavior) = ''auto''"
    by (simp add: loadConfig_defaults_def unsetBehavior_def)
  have w: "readFails (Some '' \<newline>'')"
    by (simp add: readFails_def strings_eval)
  have f: "TrimSpace ''foo'' = ''foo''"
    by (simp add: strings_eval)
  have l: "capturedLine (loadConfig_defaults unsetBehavior) ''clipboard'' ''foo''
             = LogCaptured ''clipboard'' 3 None"
    by (simp add: capturedLine_def loadConfig_defaults_def unsetBehavior_def)
  show ?thesis
    using capture_auto_primary_then_clipboard
      [OF m, of ?xsel 3 _ "Some '' \<newline>''" 4 "''foo''"] w f l
    by simp
qed

text \<open>
  Claim C4. Every read of a selection is bounded by the configured
  \<^verbatim>\<open>selection_timeout_ms\<close> and counts as a failure when the time is over. The code
  does not do this: \<^verbatim>\<open>readXSelection\<close> waits for \<^verbatim>\<open>xsel\<close> to exit and never reads the
  setting. With the default of 1000 ms, a read that never ends blocks the resolver for
  ever, a read that ends after 60000 ms is accepted as a success, and the setting has
  no influence on the result at all.
\<close>

theorem selection_read_not_bounded:
  "SelectionTimeoutMs (loadConfig_defaults unsetBehavior) = 1000 \<and>
   captureSelectionSafely (loadConfig_defaults unsetBehavior) (\<lambda>args. Never) = Never \<and>
   captureSelectionSafely (loadConfig_defaults unsetBehavior) (\<lambda>args. After 60000 (Some ''foo''))
     = After 60000 ([LogCaptured ''primary'' 3 None], Inr ''foo'') \<and>
   captureSelectionSafely (b\<lparr>SelectionTimeoutMs := n\<rparr>) xsel = captureSelectionSafely b xsel"
proof -
  have "TrimSpace ''foo'' = ''foo''"
    by (simp add: strings_eval)
  then have "captureSelectionSafely (loadConfig_defaults unsetBehavior) (\<lambda>args. After 60000 (Some ''foo''))
     = After 60000 ([LogCaptured ''primary'' 3 None], Inr ''foo'')"
    by (simp add: captureSelectionSafely_def captureFromSelection_def readXSelection_def
        capturedLine_def loadConfig_defaults_def unsetBehavior_def)
  moreover have "captureSelectionSafely (loadConfig_defaults unsetBehavior) (\<lambda>args. Never) = Never"
    by (simp add: captureSelectionSafely_def captureFromSelection_def readXSelection_def
        loadConfig_defaults_def unsetBehavior_def)
  moreover have "SelectionTimeoutMs (loadConfig_defaults unsetBehavior) = 1000"
    by (simp add: loadConfig_defaults_def unsetBehavior_def)
  moreover have "captureSelectionSafely (b\<lparr>SelectionTimeoutMs := n\<rparr>) xsel = captureSelectionSafely b xsel"
    by (rule captureSelectionSafely_timeout_unused)
  ultimately show ?thesis
    by simp
qed

section \<open>Properties of the registry\<close>

lemma sqlCount_insert: "sqlCount k (sqlInsertOrReplace k t rows) = 1"
  by (simp add: sqlCount_def sqlInsertOrReplace_def)

lemma keys_insert:
  "set (sqlSelectWindowIds (sqlInsertOrReplace k t rows)) = insert k (set (sqlSelectWindowIds rows))"
  by (auto simp: sqlSelectWindowIds_def sqlInsertOrReplace_def)

lemma length_insert_present:
  assumes "sqlCount k rows = 1"
  shows "length (sqlInsertOrReplace k t rows) = length rows"
proof -
  have "length (filter (\<lambda>r. fst r = k) rows) + length (filter (\<lambda>r. \<not> fst r = k) rows) = length rows"
    by (rule sum_length_filter_compl)
  then show ?thesis
    using assms by (simp add: sqlCount_def sqlInsertOrReplace_def)
qed

lemma sqlCount_pos_iff: "sqlCount k rows \<noteq> 0 \<longleftrightarrow> k \<in> set (sqlSelectWindowIds rows)"
  by (auto simp: sqlCount_def sqlSelectWindowIds_def filter_empty_conv)

lemma map_of_insert: "map_of (sqlInsertOrReplace k t rows) k = Some t"
proof -
  have "map_of (filter (\<lambda>r. fst r \<noteq> k) rows) k = None"
    by (induction rows) auto
  then show ?thesis
    by (simp add: sqlInsertOrReplace_def map_add_def)
qed

lemma map_of_insert_other:
  assumes "k' \<noteq> k"
  shows "map_of (sqlInsertOrReplace k t rows) k' = map_of rows k'"
proof -
  have "map_of (filter (\<lambda>r. fst r \<noteq> k) rows) k' = map_of rows k'"
    using assms by (induction rows) auto
  then show ?thesis
    using assms by (simp add: sqlInsertOrReplace_def map_add_def split: option.splits)
qed

lemma upsert_step:
  assumes "db s = Some rows" and "sqlCount (normalizeWindowID wid) rows = 1"
  shows "\<exists>rows'. db (snd (addResearchWindow ok t wid s)) = Some rows' \<and>
           sqlCount (normalizeWindowID wid) rows' = 1 \<and>
           set (sqlSelectWindowIds rows') = set (sqlSelectWindowIds rows) \<and>
           length rows' = length rows \<and>
           (\<forall>k'. k' \<noteq> normalizeWindowID wid \<longrightarrow> map_of rows' k' = map_of rows k')"
proof (cases ok)
  case True
  have "normalizeWindowID wid \<in> set (sqlSelectWindowIds rows)"
    using assms(2) sqlCount_pos_iff [of "normalizeWindowID wid" rows] by simp
  then show ?thesis
    using True assms
    by (auto simp: addResearchWindow_def sqlCount_insert keys_insert length_insert_present
        map_of_insert_other)
next
  case False
  then show ?thesis
    using assms by (simp add: addResearchWindow_def)
qed

lemma upsertAll_keeps:
  assumes "db s = Some rows" and "sqlCount (normalizeWindowID wid) rows = 1"
  shows "\<exists>rows'. db (upsertAll wid again s) = Some rows' \<and>
           sqlCount (normalizeWindowID wid) rows' = 1 \<and>
           set (sqlSelectWindowIds rows') = set (sqlSelectWindowIds rows) \<and>
           length rows' = length rows \<and>
           (\<forall>k'. k' \<noteq> normalizeWindowID wid \<longrightarrow> map_of rows' k' = map_of rows k')"
  using assms
proof (induction again arbitrary: s rows)
  case Nil
  then show ?case by simp
next
  case (Cons a again)
  obtain ok t where a: "a = (ok, t)"
    by (cases a)
  obtain rows1 where r1: "db (snd (addResearchWindow ok t wid s)) = Some rows1"
      "sqlCount (normalizeWindowID wid) rows1 = 1"
      "set (sqlSelectWindowIds rows1) = set (sqlSelectWindowIds rows)"
      "length rows1 = length rows"
      "\<forall>k'. k' \<noteq> normalizeWindowID wid \<longrightarrow> map_of rows1 k' = map_of rows k'"
    using upsert_step [OF Cons.prems, of ok t] by auto
  obtain rows2 where r2: "db (upsertAll wid again (snd (addResearchWindow ok t wid s))) = Some rows2"
      "sqlCount (normalizeWindowID wid) rows2 = 1"
      "set (sqlSelectWindowIds rows2) = set (sqlSelectWindowIds rows1)"
      "length rows2 = length rows1"
      "\<forall>k'. k' \<noteq> normalizeWindowID wid \<longrightarrow> map_of rows2 k' = map_of rows1 k'"
    using Cons.IH [OF r1(1,2)] by auto
  show ?case
    using r1(3,4,5) r2 a by simp
qed

text \<open>
  Claim C7. After a first successful upsert of an ID, any number of further upserts of
  the same ID, whether they succeed or fail, leave the listing with the same IDs and
  the same size; the ID occurs in it exactly once, the creation times of the other
  IDs stay as they were, and a further successful upsert sets the creation time of
  the ID to the new time.
\<close>

theorem upsert_idempotent:
  assumes "db s = Some rows"
  shows "\<exists>l1 l2.
           getResearchWindows True (\<lambda>w. True) (snd (addResearchWindow True t wid s)) = Inr l1 \<and>
           getResearchWindows True (\<lambda>w. True)
             (upsertAll wid again (snd (addResearchWindow True t wid s))) = Inr l2 \<and>
           length l2 = length l1 \<and> set l2 = set l1 \<and>
           length (filter (\<lambda>w. w = normalizeWindowID wid) l2) = 1 \<and>
           (k' \<noteq> normalizeWindowID wid \<longrightarrow>
              createdAt (upsertAll wid again (snd (addResearchWindow True t wid s))) k'
                = createdAt s k') \<and>
           createdAt (snd (addResearchWindow True t' wid (upsertAll wid again (snd (addResearchWindow True t wid s)))))
             (normalizeWindowID wid) = Some t'"
proof -
  let ?k = "normalizeWindowID wid"
  let ?s1 = "snd (addResearchWindow True t wid s)"
  have s1: "db ?s1 = Some (sqlInsertOrReplace ?k t rows)"
    using assms by (simp add: addResearchWindow_def)
  obtain rows2 where r2: "db (upsertAll wid again ?s1) = Some rows2"
      "sqlCount ?k rows2 = 1"
      "set (sqlSelectWindowIds rows2) = set (sqlSelectWindowIds (sqlInsertOrReplace ?k t rows))"
      "length rows2 = length (sqlInsertOrReplace ?k t rows)"
      "\<forall>k'. k' \<noteq> ?k \<longrightarrow> map_of rows2 k' = map_of (sqlInsertOrReplace ?k t rows) k'"
    using upsertAll_keeps [OF s1 sqlCount_insert, of again] by auto
  have o: "k' \<noteq> ?k \<longrightarrow> createdAt (upsertAll wid again ?s1) k' = createdAt s k'"
    using r2(1,5) assms by (simp add: createdAt_def map_of_insert_other)
  have c: "length (filter (\<lambda>w. w = ?k) (sqlSelectWindowIds rows2)) = 1"
    using r2(2) by (simp add: sqlCount_def sqlSelectWindowIds_def filter_sort filter_map comp_def)
  have t: "createdAt (snd (addResearchWindow True t' wid (upsertAll wid again ?s1))) ?k = Some t'"
    using r2(1) by (simp add: addResearchWindow_def createdAt_def map_of_insert)
  show ?thesis
    using s1 r2(1-4) c t o by (simp add: getResearchWindows_def sqlSelectWindowIds_def)
qed

theorem upsert_idempotent_witness:
  "(\<exists>l1 l2.
      getResearchWindows True (\<lambda>w. True)
        (snd (addResearchWindow True 10 ''123'' \<lparr>db = Some [(''0x00000001'', 5)], trace = []\<rparr>)) = Inr l1 \<and>
      getResearchWindows True (\<lambda>w. True)
        (upsertAll ''123'' [(True, 20), (False, 30)]
          (snd (addResearchWindow True 10 ''123'' \<lparr>db = Some [(''0x00000001'', 5)], trace = []\<rparr>))) = Inr l2 \<and>
      length l2 = length l1 \<and> set l2 = set l1 \<and>
      length (filter (\<lambda>w. w = normalizeWindowID ''123'') l2) = 1 \<and>
      createdAt (upsertAll ''123'' [(True, 20), (False, 30)]
          (snd (addResearchWindow True 10 ''123'' \<lparr>db = Some [(''0x00000001'', 5)], trace = []\<rparr>)))
        ''0x00000001'' = Some 5 \<and>
      createdAt (snd (addResearchWindow True 40 ''123''
          (upsertAll ''123'' [(True, 20), (False, 30)]
            (snd (addResearchWindow True 10 ''123'' \<lparr>db = Some [(''0x00000001'', 5)], trace = []\<rparr>)))))
        (normalizeWindowID ''123'') = Some 40) \<and>
   getResearchWindows True (\<lambda>w. True)
     (upsertAll ''123'' [(True, 20), (False, 30)]
       (snd (addResearchWindow True 10 ''123'' \<lparr>db = Some [(''0x00000001'', 5)], trace = []\<rparr>)))
     = Inr [''0x00000001'', ''0x0000007b'']"
proof -
  have n: "normalizeWindowID ''123'' = ''0x0000007b''"
    by (simp add: normalize_eval)
  have "getResearchWindows True (\<lambda>w. True)
     (upsertAll ''123'' [(True, 20), (False, 30)]
       (snd (addResearchWindow True 10 ''123'' \<lparr>db = Some [(''0x00000001'', 5)], trace = []\<rparr>)))
     = Inr [''0x00000001'', ''0x0000007b'']"
    by (simp add: addResearchWindow_def getResearchWindows_def sqlInsertOrReplace_def
        sqlSelectWindowIds_def n)
  then show ?thesis
    using upsert_idempotent
      [of "\<lparr>db = Some [(''0x00000001'', 5)], trace = []\<rparr>" "[(''0x00000001'', 5)]"
          10 "''123''" "[(True, 20), (False, 30)]" "''0x00000001''" 40]
    by (simp add: n createdAt_def)
qed

section \<open>Properties of the reconciler\<close>

lemma addResearchWindow_canonical:
  assumes "db s = Some rows"
    and "list_all (\<lambda>w. normalizeWindowID w = w) (sqlSelectWindowIds rows)"
  shows "\<exists>rows'. db (snd (addResearchWindow ok t wid s)) = Some rows' \<and>
           list_all (\<lambda>w. normalizeWindowID w = w) (sqlSelectWindowIds rows')"
  using assms
  by (cases ok)
    (auto simp: addResearchWindow_def sqlInsertOrReplace_def sqlSelectWindowIds_def
      list_all_iff normalize_idempotent Let_def)

lemma removeDead_all_ok:
  assumes "db s = Some rows"
    and "list_all del_ok wids"
    and "list_all (\<lambda>w. normalizeWindowID w = w) wids"
  shows "removeDead del_ok current wids s =
           s\<lparr>db := Some (filter (\<lambda>r. fst r \<in> current \<or> fst r \<notin> set wids) rows),
             trace := trace s @ map (\<lambda>w. Log (LogCleanedUp w)) (filter (\<lambda>w. w \<notin> current) wids)\<rparr>"
  using assms
proof (induction wids arbitrary: s rows)
  case Nil
  then show ?case by simp
next
  case (Cons wid wids)
  have ok: "del_ok wid" "normalizeWindowID wid = wid" "list_all del_ok wids"
      "list_all (\<lambda>w. normalizeWindowID w = w) wids"
    using Cons.prems by simp_all
  show ?case
  proof (cases "wid \<in> current")
    case True
    have "filter (\<lambda>r. fst r \<in> current \<or> fst r \<notin> set wids) rows
        = filter (\<lambda>r. fst r \<in> current \<or> fst r \<notin> set (wid # wids)) rows"
      using True by (intro filter_cong) auto
    then show ?thesis
      using True Cons.IH [OF Cons.prems(1) ok(3,4)] by simp
  next
    case False
    let ?s' = "emit (Log (LogCleanedUp wid)) (s\<lparr>db := Some (sqlDelete wid rows)\<rparr>)"
    have step: "removeDead del_ok current (wid # wids) s = removeDead del_ok current wids ?s'"
      using False ok Cons.prems(1) by (simp add: removeResearchWindow_def)
    have db': "db ?s' = Some (sqlDelete wid rows)"
      by (simp add: emit_def)
    have "filter (\<lambda>r. fst r \<in> current \<or> fst r \<notin> set wids) (sqlDelete wid rows)
        = filter (\<lambda>r. fst r \<in> current \<or> fst r \<notin> set (wid # wids)) rows"
      using False by (auto simp: sqlDelete_def intro: filter_cong)
    then show ?thesis
      using False step Cons.IH [OF db' ok(3,4)] by (simp add: emit_def)
  qed
qed

text \<open>
  Claim C2, as amended. When the store and the window listing work and the tracked IDs
  are in the form in which \<^verbatim>\<open>addResearchWindow\<close> stores them, the reconciler removes
  from the registry exactly the tracked IDs that are not among the first fields of the
  listing, keeps the others, writes one log line for each removed entry, and returns
  no error; it returns no count.
\<close>

theorem cleanup_removes_dead:
  assumes "db s = Some rows" and "select_ok e"
    and "list_all (scan_ok e) (sqlSelectWindowIds rows)"
    and "wmctrl_list e = Some out"
    and "list_all (delete_ok e) (sqlSelectWindowIds rows)"
    and "list_all (\<lambda>w. normalizeWindowID w = w) (sqlSelectWindowIds rows)"
  shows "cleanupDeadWindows e s =
           (None,
            s\<lparr>db := Some (filter (\<lambda>r. fst r \<in> currentWIDs out) rows),
              trace := trace s @ Exec ''wmctrl'' [''-l''] #
                map (\<lambda>w. Log (LogCleanedUp w))
                  (filter (\<lambda>w. w \<notin> currentWIDs out) (sqlSelectWindowIds rows))\<rparr>)"
proof -
  let ?ids = "sqlSelectWindowIds rows"
  let ?s1 = "emit (Exec ''wmctrl'' [''-l'']) s"
  have all: "filter (scan_ok e) ?ids = ?ids"
    using assms(3) by (simp add: list_all_iff)
  have db1: "db ?s1 = Some rows"
    using assms(1) by (simp add: emit_def)
  have "filter (\<lambda>r. fst r \<in> currentWIDs out \<or> fst r \<notin> set ?ids) rows
      = filter (\<lambda>r. fst r \<in> currentWIDs out) rows"
    by (rule filter_cong) (auto simp: sqlSelectWindowIds_def)
  then have "removeDead (delete_ok e) (currentWIDs out) ?ids ?s1 =
      s\<lparr>db := Some (filter (\<lambda>r. fst r \<in> currentWIDs out) rows),
        trace := trace s @ Exec ''wmctrl'' [''-l''] #
          map (\<lambda>w. Log (LogCleanedUp w)) (filter (\<lambda>w. w \<notin> currentWIDs out) ?ids)\<rparr>"
    using removeDead_all_ok [OF db1 assms(5,6), of "currentWIDs out"] by (simp add: emit_def)
  then show ?thesis
    using assms(1,2,4) all by (simp add: cleanupDeadWindows_def)
qed

lemma currentWIDs_BD: "currentWIDs listingBD = {''0x00000002'', ''0x00000004''}"
  by (simp add: currentWIDs_def listingBD_def strings_eval)

lemmas cleanup_eval =
  cleanupDeadWindows_def cleanupAllOk_def removeResearchWindow_def sqlDelete_def
  sqlSelectWindowIds_def emit_def normalizeWindowID_def

text \<open>
  The example of the specification: tracked \<open>{A, B, C}\<close>, live \<open>{B, D}\<close>; \<open>A\<close> and
  \<open>C\<close> are removed, \<open>B\<close> stays, and two log lines report the removals.
\<close>

theorem cleanup_removes_dead_witness:
  "cleanupDeadWindows (cleanupAllOk listingBD)
     \<lparr>db = Some [(''0x00000001'', 1), (''0x00000002'', 2), (''0x00000003'', 3)], trace = []\<rparr>
   = (None,
      \<lparr>db = Some [(''0x00000002'', 2)],
       trace = [Exec ''wmctrl'' [''-l''], Log (LogCleanedUp ''0x00000001''),
                Log (LogCleanedUp ''0x00000003'')]\<rparr>)"
  using cleanup_removes_dead
    [of "\<lparr>db = Some [(''0x00000001'', 1), (''0x00000002'', 2), (''0x00000003'', 3)], trace = []\<rparr>"
        "[(''0x00000001'', 1), (''0x00000002'', 2), (''0x00000003'', 3)]"
        "cleanupAllOk listingBD" listingBD]
  by (simp add: currentWIDs_BD cleanupAllOk_def sqlSelectWindowIds_def normalizeWindowID_def)

text \<open>
  Against claim C2 as it is stated: the value returned by the reconciler is not the
  number of removed entries. It is the nil error both in a run that removes two
  entries and in a run that removes none.
\<close>

theorem cleanup_returns_no_count:
  "fst (cleanupDeadWindows (cleanupAllOk listingBD)
     \<lparr>db = Some [(''0x00000001'', 1), (''0x00000002'', 2), (''0x00000003'', 3)], trace = []\<rparr>) = None \<and>
   db (snd (cleanupDeadWindows (cleanupAllOk listingBD)
     \<lparr>db = Some [(''0x00000001'', 1), (''0x00000002'', 2), (''0x00000003'', 3)], trace = []\<rparr>))
     = Some [(''0x00000002'', 2)] \<and>
   fst (cleanupDeadWindows (cleanupAllOk listingBD)
     \<lparr>db = Some [(''0x00000002'', 2)], trace = []\<rparr>) = None \<and>
   db (snd (cleanupDeadWindows (cleanupAllOk listingBD)
     \<lparr>db = Some [(''0x00000002'', 2)], trace = []\<rparr>)) = Some [(''0x00000002'', 2)]"
  by (simp add: cleanup_eval currentWIDs_BD)

lemma removeResearchWindow_keeps:
  assumes "db s = Some rows"
  shows "\<exists>rows'. db (snd (removeResearchWindow ok wid s)) = Some rows' \<and>
           set (sqlSelectWindowIds rows') \<subseteq> set (sqlSelectWindowIds rows) \<and>
           trace (snd (removeResearchWindow ok wid s)) = trace s"
  using assms by (auto simp: removeResearchWindow_def sqlDelete_def sqlSelectWindowIds_def)

lemma windowCloseCalls_emit_Log:
  "windowCloseCalls (trace (emit (Log l) s)) = windowCloseCalls (trace s)"
  by (simp add: windowCloseCalls_def emit_def isWindowClose_def)

lemma removeDead_keeps:
  assumes "db s = Some rows"
  shows "\<exists>rows'. db (removeDead del_ok current wids s) = Some rows' \<and>
           set (sqlSelectWindowIds rows') \<subseteq> set (sqlSelectWindowIds rows) \<and>
           windowCloseCalls (trace (removeDead del_ok current wids s)) = windowCloseCalls (trace s)"
  using assms
proof (induction wids arbitrary: s rows)
  case Nil
  then show ?case by simp
next
  case (Cons wid wids)
  show ?case
  proof (cases "wid \<in> current")
    case True
    then show ?thesis
      using Cons.IH [OF Cons.prems] by simp
  next
    case False
    obtain rerr s' where r: "removeResearchWindow (del_ok wid) wid s = (rerr, s')"
      by (cases "removeResearchWindow (del_ok wid) wid s")
    obtain rows1 where r1: "db s' = Some rows1"
        "set (sqlSelectWindowIds rows1) \<subseteq> set (sqlSelectWindowIds rows)" "trace s' = trace s"
      using removeResearchWindow_keeps [OF Cons.prems, of "del_ok wid" wid] r by auto
    let ?s'' = "emit (Log (case rerr of Some err \<Rightarrow> LogRemoveDeadWarning wid err
                                   | None \<Rightarrow> LogCleanedUp wid)) s'"
    have step: "removeDead del_ok current (wid # wids) s = removeDead del_ok current wids ?s''"
      using False r by (cases rerr) simp_all
    have db'': "db ?s'' = Some rows1"
      using r1(1) by (simp add: emit_def)
    have tr: "windowCloseCalls (trace ?s'') = windowCloseCalls (trace s)"
      using r1(3) by (simp add: windowCloseCalls_emit_Log)
    show ?thesis
      using Cons.IH [OF db''] r1(2) tr step by auto
  qed
qed

lemma cleanup_keeps:
  assumes "db s = Some rows"
  shows "\<exists>rows'. db (snd (cleanupDeadWindows ce s)) = Some rows' \<and>
           set (sqlSelectWindowIds rows') \<subseteq> set (sqlSelectWindowIds rows) \<and>
           windowCloseCalls (trace (snd (cleanupDeadWindows ce s))) = windowCloseCalls (trace s)"
proof -
  let ?s1 = "emit (Exec ''wmctrl'' [''-l'']) s"
  have db1: "db ?s1 = Some rows"
    using assms by (simp add: emit_def)
  have tr1: "windowCloseCalls (trace ?s1) = windowCloseCalls (trace s)"
    by (simp add: windowCloseCalls_def emit_def isWindowClose_def)
  show ?thesis
  proof (cases "select_ok ce")
    case False
    then show ?thesis
      using assms by (simp add: cleanupDeadWindows_def)
  next
    case True
    show ?thesis
    proof (cases "wmctrl_list ce")
      case None
      then show ?thesis
        using True assms db1 tr1 by (simp add: cleanupDeadWindows_def)
    next
      case (Some out)
      then show ?thesis
        using True assms tr1
          removeDead_keeps [OF db1, of "delete_ok ce" "currentWIDs out"
            "filter (scan_ok ce) (sqlSelectWindowIds rows)"]
        by (simp add: cleanupDeadWindows_def)
    qed
  qed
qed

lemma cleanup_no_db:
  "db s = None \<Longrightarrow> cleanupDeadWindows ce s = (Some ErrDbNotInitialized, s)"
  by (simp add: cleanupDeadWindows_def)

section \<open>Properties of the closing flow\<close>

lemma close_tracked_aux:
  assumes "getactivewindow e = Some out"
    and "db (reconciled e s) = Some rows"
    and "sqlCount (normalizeWindowID (TrimSpace out)) rows \<noteq> 0"
  shows "(\<not> count_ok e \<longrightarrow> fst (closeActiveResearchWindow e s) = Some (ErrCheckStatus ErrSql)) \<and>
         (count_ok e \<and> \<not> windowclose_ok e \<longrightarrow>
            fst (closeActiveResearchWindow e s) = Some ErrCloseWindow) \<and>
         (count_ok e \<and> windowclose_ok e \<longrightarrow> fst (closeActiveResearchWindow e s) = None) \<and>
         (count_ok e \<and> windowclose_ok e \<and> \<not> untrack_ok e \<longrightarrow>
            db (snd (closeActiveResearchWindow e s)) = Some rows \<and>
            Log (LogUntrackWarning ErrSql) \<in> set (trace (snd (closeActiveResearchWindow e s))))"
proof -
  let ?s1 = "emit (Exec ''xdotool'' [''getactivewindow'']) s"
  obtain cerr s' where c: "cleanupDeadWindows (cleanup e) ?s1 = (cerr, s')"
    by (cases "cleanupDeadWindows (cleanup e) ?s1")
  have db': "db s' = Some rows"
    using assms(2) c by (simp add: reconciled_def)
  let ?s2 = "case cerr of Some err \<Rightarrow> emit (Log (LogCleanupWarning err)) s' | None \<Rightarrow> s'"
  have db2: "db ?s2 = Some rows"
    using db' by (cases cerr) (simp_all add: emit_def)
  have unf: "closeActiveResearchWindow e s =
      (if count_ok e then
         (let s3 = emit (Exec ''xdotool'' [''getwindowname'', TrimSpace out]) ?s2;
              s4 = emit (Exec ''xdotool'' [''windowclose'', TrimSpace out]) s3
          in if windowclose_ok e then
               (let s5 = (case removeResearchWindow (untrack_ok e) (TrimSpace out) s4 of
                            (Some err, s') \<Rightarrow> emit (Log (LogUntrackWarning err)) s'
                          | (None, s') \<Rightarrow> s')
                in (None, emit (Log (LogClosed (normalizeWindowID (TrimSpace out))
                                       (TrimSpace (getwindowname e)))) s5))
             else (Some ErrCloseWindow, s4))
       else (Some (ErrCheckStatus ErrSql), ?s2))"
    using assms(1,3) c db2
    by (cases cerr) (simp_all add: closeActiveResearchWindow_def Let_def)
  have "\<not> untrack_ok e \<Longrightarrow>
      removeResearchWindow (untrack_ok e) (TrimSpace out)
        (emit (Exec ''xdotool'' [''windowclose'', TrimSpace out])
          (emit (Exec ''xdotool'' [''getwindowname'', TrimSpace out]) ?s2))
      = (Some ErrSql,
         emit (Exec ''xdotool'' [''windowclose'', TrimSpace out])
          (emit (Exec ''xdotool'' [''getwindowname'', TrimSpace out]) ?s2))"
    using db2 by (simp add: removeResearchWindow_def emit_def)
  then show ?thesis
    using unf db2 by (auto simp: Let_def emit_def)
qed

lemma close_no_db:
  assumes "getactivewindow e = Some out" and "db s = None"
  shows "fst (closeActiveResearchWindow e s) = Some ErrDbNotInitialized"
proof -
  have "cleanupDeadWindows (cleanup e) (emit (Exec ''xdotool'' [''getactivewindow'']) s)
      = (Some ErrDbNotInitialized, emit (Exec ''xdotool'' [''getactivewindow'']) s)"
    using assms(2) by (simp add: cleanup_no_db emit_def)
  then show ?thesis
    using assms by (simp add: closeActiveResearchWindow_def emit_def)
qed

lemma TrimSpace_2: "TrimSpace ''2\<newline>'' = ''2''"
  by (simp add: strings_eval)

lemma TrimSpace_456: "TrimSpace ''456\<newline>'' = ''456''"
  by (simp add: strings_eval)

lemma normalize_2: "normalizeWindowID ''2'' = ''0x00000002''"
  by (simp add: normalize_eval)

lemma normalize_456: "normalizeWindowID ''456'' = ''0x000001c8''"
  by (simp add: normalize_eval)

lemma reconciled_B:
  "reconciled (closeEnv active cnt wc ut) \<lparr>db = Some [(''0x00000002'', 2)], trace = []\<rparr>
   = \<lparr>db = Some [(''0x00000002'', 2)],
      trace = [Exec ''xdotool'' [''getactivewindow''], Exec ''wmctrl'' [''-l'']]\<rparr>"
  by (simp add: reconciled_def closeEnv_def cleanup_eval currentWIDs_BD)

text \<open>
  Claim C8. When the active window is known, the store answers the membership query,
  and the normalized ID of the active window is not in the registry, the close
  operation returns no error and starts no \<^verbatim>\<open>xdotool windowclose\<close>.
\<close>

theorem close_untracked_noop:
  assumes "getactivewindow e = Some out" and "db s = Some rows" and "count_ok e"
    and "normalizeWindowID (TrimSpace out) \<notin> set (sqlSelectWindowIds rows)"
  shows "fst (closeActiveResearchWindow e s) = None \<and>
         windowCloseCalls (trace (snd (closeActiveResearchWindow e s))) = windowCloseCalls (trace s)"
proof -
  let ?k = "normalizeWindowID (TrimSpace out)"
  let ?s1 = "emit (Exec ''xdotool'' [''getactivewindow'']) s"
  have db1: "db ?s1 = Some rows"
    using assms(2) by (simp add: emit_def)
  have tr1: "windowCloseCalls (trace ?s1) = windowCloseCalls (trace s)"
    by (simp add: windowCloseCalls_def emit_def isWindowClose_def)
  obtain cerr s' where c: "cleanupDeadWindows (cleanup e) ?s1 = (cerr, s')"
    by (cases "cleanupDeadWindows (cleanup e) ?s1")
  obtain rows' where r: "db s' = Some rows'"
      "set (sqlSelectWindowIds rows') \<subseteq> set (sqlSelectWindowIds rows)"
      "windowCloseCalls (trace s') = windowCloseCalls (trace ?s1)"
    using cleanup_keeps [OF db1, of "cleanup e"] c by auto
  let ?s2 = "case cerr of Some err \<Rightarrow> emit (Log (LogCleanupWarning err)) s' | None \<Rightarrow> s'"
  have db2: "db ?s2 = Some rows'"
    using r(1) by (cases cerr) (simp_all add: emit_def)
  have tr2: "windowCloseCalls (trace ?s2) = windowCloseCalls (trace s)"
    using r(3) tr1 by (cases cerr) (simp_all add: windowCloseCalls_emit_Log)
  have "?k \<notin> set (sqlSelectWindowIds rows')"
    using assms(4) r(2) by auto
  then have cnt: "sqlCount ?k rows' = 0"
    using sqlCount_pos_iff [of ?k rows'] by simp
  have "closeActiveResearchWindow e s = (None, ?s2)"
    using assms(1,3) c db2 cnt
    by (cases cerr) (simp_all add: closeActiveResearchWindow_def)
  then show ?thesis
    using tr2 by simp
qed

theorem close_untracked_noop_witness:
  "fst (closeActiveResearchWindow (closeEnv ''456\<newline>'' True True True)
          \<lparr>db = Some [(''0x00000002'', 2)], trace = []\<rparr>) = None \<and>
   windowCloseCalls (trace (snd (closeActiveResearchWindow (closeEnv ''456\<newline>'' True True True)
          \<lparr>db = Some [(''0x00000002'', 2)], trace = []\<rparr>))) = 0"
  using close_untracked_noop
    [of "closeEnv ''456\<newline>'' True True True" "''456\<newline>''"
        "\<lparr>db = Some [(''0x00000002'', 2)], trace = []\<rparr>" "[(''0x00000002'', 2)]"]
  by (simp add: closeEnv_def TrimSpace_456 normalize_456 sqlSelectWindowIds_def windowCloseCalls_def)

text \<open>
  Against claim C9 as it is stated: a close request on a tracked window whose registry
  delete fails after the external close. The command returns no error and the process
  exits with status 0; the failure is a warning in the log, and the entry stays in
  the registry.
\<close>

theorem close_delete_failure_not_surfaced:
  "fst (closeActiveResearchWindow (closeEnv ''2\<newline>'' True True False)
          \<lparr>db = Some [(''0x00000002'', 2)], trace = []\<rparr>) = None \<and>
   main_exit (fst (closeActiveResearchWindow (closeEnv ''2\<newline>'' True True False)
          \<lparr>db = Some [(''0x00000002'', 2)], trace = []\<rparr>)) = 0 \<and>
   snd (closeActiveResearchWindow (closeEnv ''2\<newline>'' True True False)
          \<lparr>db = Some [(''0x00000002'', 2)], trace = []\<rparr>)
     = \<lparr>db = Some [(''0x00000002'', 2)],
        trace = [Exec ''xdotool'' [''getactivewindow''], Exec ''wmctrl'' [''-l''],
                 Exec ''xdotool'' [''getwindowname'', ''2''],
                 Exec ''xdotool'' [''windowclose'', ''2''],
                 Log (LogUntrackWarning ErrSql),
                 Log (LogClosed ''0x00000002'' ''Research'')]\<rparr>"
proof -
  have t: "TrimSpace ''Research'' = ''Research''"
    by (simp add: strings_eval)
  have "closeActiveResearchWindow (closeEnv ''2\<newline>'' True True False)
          \<lparr>db = Some [(''0x00000002'', 2)], trace = []\<rparr>
     = (None, \<lparr>db = Some [(''0x00000002'', 2)],
        trace = [Exec ''xdotool'' [''getactivewindow''], Exec ''wmctrl'' [''-l''],
                 Exec ''xdotool'' [''getwindowname'', ''2''],
                 Exec ''xdotool'' [''windowclose'', ''2''],
                 Log (LogUntrackWarning ErrSql),
                 Log (LogClosed ''0x00000002'' ''Research'')]\<rparr>)"
    unfolding closeActiveResearchWindow_def closeEnv_def
    by (simp add: TrimSpace_2 normalize_2 t cleanupDeadWindows_def cleanupAllOk_def
        removeResearchWindow_def sqlSelectWindowIds_def sqlCount_def emit_def currentWIDs_BD
        Let_def)
  then show ?thesis
    by (simp add: main_exit_def)
qed

text \<open>
  Claim C9, as amended. During a close request on a tracked window, a membership
  query that the store cannot answer is surfaced as a command failure with a non-zero
  exit status. A registry delete that fails after the external close is not: it is
  logged as a warning, the entry stays in the registry, and the command succeeds with
  exit status 0, whatever the reconcile step before it did.
\<close>

theorem close_store_failures:
  assumes "getactivewindow e = Some out"
    and "db (reconciled e s) = Some rows"
    and "sqlCount (normalizeWindowID (TrimSpace out)) rows \<noteq> 0"
  shows "(\<not> count_ok e \<longrightarrow>
            fst (closeActiveResearchWindow e s) = Some (ErrCheckStatus ErrSql) \<and>
            main_exit (fst (closeActiveResearchWindow e s)) = 1) \<and>
         (count_ok e \<and> windowclose_ok e \<longrightarrow>
            fst (closeActiveResearchWindow e s) = None \<and>
            main_exit (fst (closeActiveResearchWindow e s)) = 0) \<and>
         (count_ok e \<and> windowclose_ok e \<and> \<not> untrack_ok e \<longrightarrow>
            db (snd (closeActiveResearchWindow e s)) = Some rows \<and>
            Log (LogUntrackWarning ErrSql) \<in> set (trace (snd (closeActiveResearchWindow e s))))"
  using close_tracked_aux [OF assms] by (simp add: main_exit_def)

theorem close_store_failures_witness:
  "fst (closeActiveResearchWindow (closeEnv ''2\<newline>'' False True True)
          \<lparr>db = Some [(''0x00000002'', 2)], trace = []\<rparr>) = Some (ErrCheckStatus ErrSql) \<and>
   main_exit (fst (closeActiveResearchWindow (closeEnv ''2\<newline>'' False True True)
          \<lparr>db = Some [(''0x00000002'', 2)], trace = []\<rparr>)) = 1 \<and>
   fst (closeActiveResearchWindow (closeEnv ''2\<newline>'' True True True)
          \<lparr>db = Some [(''0x00000002'', 2)], trace = []\<rparr>) = None"
proof -
  let ?s = "\<lparr>db = Some [(''0x00000002'', 2)], trace = []\<rparr>"
  have c: "sqlCount (normalizeWindowID (TrimSpace ''2\<newline>'')) [(''0x00000002'', 2)] \<noteq> 0"
    by (simp add: TrimSpace_2 normalize_2 sqlCount_def)
  have a: "fst (closeActiveResearchWindow (closeEnv ''2\<newline>'' False True True) ?s)
             = Some (ErrCheckStatus ErrSql) \<and>
           main_exit (fst (closeActiveResearchWindow (closeEnv ''2\<newline>'' False True True) ?s)) = 1"
    using close_store_failures
      [of "closeEnv ''2\<newline>'' False True True" "''2\<newline>''" ?s
          "[(''0x00000002'', 2)]"] c reconciled_B [of "''2\<newline>''" False True True]
    by (simp add: closeEnv_def main_exit_def)
  have b: "fst (closeActiveResearchWindow (closeEnv ''2\<newline>'' True True True) ?s) = None"
    using close_store_failures
      [of "closeEnv ''2\<newline>'' True True True" "''2\<newline>''" ?s
          "[(''0x00000002'', 2)]"] c reconciled_B [of "''2\<newline>''" True True True]
    by (simp add: closeEnv_def)
  show ?thesis
    using a b by blast
qed

section \<open>Properties of the opening flow\<close>

lemma waitLoop_timeout:
  assumes "\<And>j. noNewWindow beforeWIDs (snd (pl j))"
  shows "fst (waitLoop pl beforeWIDs timeout now i s) = Inl ErrTimeoutNewWindow \<and>
         db (snd (waitLoop pl beforeWIDs timeout now i s)) = db s \<and>
         (\<exists>n. trace (snd (waitLoop pl beforeWIDs timeout now i s))
               = trace s @ replicate n (Exec ''wmctrl'' [''-l'']))"
  using assms
proof (induction pl beforeWIDs timeout now i s rule: waitLoop.induct)
  case (1 pl beforeWIDs timeout now i s)
  note nn = "1.prems" [of i]
  show ?case
  proof (cases "now < timeout")
    case False
    then show ?thesis
      by (subst (1 2 3) waitLoop.simps) simp
  next
    case True
    let ?s' = "emit (Exec ''wmctrl'' [''-l'']) s"
    let ?next = "waitLoop pl beforeWIDs timeout (now + fst (pl i) + 100) (Suc i) ?s'"
    have step: "waitLoop pl beforeWIDs timeout now i s = ?next"
    proof (cases "snd (pl i)")
      case None
      then show ?thesis
        using True by (subst waitLoop.simps) simp
    next
      case (Some out)
      then have "find (\<lambda>wid. wid \<notin> beforeWIDs) (firefoxWIDs out) = None"
        using nn by (simp add: noNewWindow_def)
      then show ?thesis
        using True Some by (subst waitLoop.simps) simp
    qed
    have ih: "fst ?next = Inl ErrTimeoutNewWindow \<and> db (snd ?next) = db ?s' \<and>
        (\<exists>n. trace (snd ?next) = trace ?s' @ replicate n (Exec ''wmctrl'' [''-l'']))"
    proof (cases "snd (pl i)")
      case None
      then show ?thesis
        using "1.IH"(1) [OF True None] "1.prems" by simp
    next
      case (Some out)
      then have "find (\<lambda>wid. wid \<notin> beforeWIDs) (firefoxWIDs out) = None"
        using nn by (simp add: noNewWindow_def)
      then show ?thesis
        using "1.IH"(2) [OF True Some] "1.prems" by simp
    qed
    then obtain n where n: "trace (snd ?next) = trace ?s' @ replicate n (Exec ''wmctrl'' [''-l''])"
      by auto
    have "trace (snd ?next) = trace s @ replicate (Suc n) (Exec ''wmctrl'' [''-l''])"
      using n by (simp add: emit_def)
    then have ex: "\<exists>m. trace (snd ?next) = trace s @ replicate m (Exec ''wmctrl'' [''-l''])"
      by (rule exI [where x = "Suc n"])
    have d: "db (snd ?next) = db s"
      using ih by (simp add: emit_def)
    have f: "fst ?next = Inl ErrTimeoutNewWindow"
      using ih by (rule conjunct1)
    show ?thesis
      unfolding step using f d ex by (intro conjI)
  qed
qed

lemma open_timeout_aux:
  assumes "firefox_start_ok e"
    and "\<forall>i. noNewWindow (snapshotBefore (wmctrl_before e)) (snd (polls e i))"
  shows "fst (openBrowserInSideWindow b e searchURL query s)
           = Some (ErrDetectNewWindow ErrTimeoutNewWindow) \<and>
         db (snd (openBrowserInSideWindow b e searchURL query s)) = db s \<and>
         (\<exists>n. trace (snd (openBrowserInSideWindow b e searchURL query s))
               = trace s @ [Exec ''wmctrl'' [''-l''],
                   Exec ''firefox''
                     (firefoxArgs b (ReplaceAll_placeholder searchURL (QueryEscape query)))]
                 @ replicate n (Exec ''wmctrl'' [''-l'']))"
proof -
  let ?s2 = "emit (Exec ''firefox''
                (firefoxArgs b (ReplaceAll_placeholder searchURL (QueryEscape query))))
              (emit (Exec ''wmctrl'' [''-l'']) s)"
  let ?w = "waitForNewFirefoxWindow (polls e) (wait_start e) (snapshotBefore (wmctrl_before e)) ?s2"
  have w: "fst ?w = Inl ErrTimeoutNewWindow \<and> db (snd ?w) = db ?s2 \<and>
      (\<exists>n. trace (snd ?w) = trace ?s2 @ replicate n (Exec ''wmctrl'' [''-l'']))"
    unfolding waitForNewFirefoxWindow_def
    using waitLoop_timeout [of "snapshotBefore (wmctrl_before e)" "polls e"] assms(2) by simp
  obtain s3 where s3: "?w = (Inl ErrTimeoutNewWindow, s3)"
    using w by (cases ?w) auto
  have "openBrowserInSideWindow b e searchURL query s = (Some (ErrDetectNewWindow ErrTimeoutNewWindow), s3)"
    using assms(1) s3 by (simp add: openBrowserInSideWindow_def Let_def)
  then show ?thesis
    using w s3 by (auto simp: emit_def)
qed


lemma firefoxWIDs_two:
  "firefoxWIDs ''0x00000001  0 host Mozilla Firefox\<newline>0x00000002  0 host Mozilla Firefox\<newline>''
     = [''0x00000001'', ''0x00000002'']"
  by (simp add: firefoxWIDs_def strings_eval normalizeWindowID_def)

lemma firefoxWIDs_three:
  "firefoxWIDs ''0x00000001  0 host Mozilla Firefox\<newline>0x00000002  0 host Mozilla Firefox\<newline>3  0 host Mozilla Firefox\<newline>''
     = [''0x00000001'', ''0x00000002'', ''0x00000003'']"
  by (simp add: firefoxWIDs_def strings_eval normalize_eval)

text \<open>
  The detector finds a window: the snapshot is \<open>{A, B}\<close>, two polls list \<open>A\<close> and
  \<open>B\<close>, the third lists a third window as well, with a decimal ID; the third poll
  returns its normalized ID.
\<close>

lemma wait_finds_new_window:
  "waitForNewFirefoxWindow
     (\<lambda>i. if i < 2
          then (20, Some ''0x00000001  0 host Mozilla Firefox\<newline>0x00000002  0 host Mozilla Firefox\<newline>'')
          else (20, Some ''0x00000001  0 host Mozilla Firefox\<newline>0x00000002  0 host Mozilla Firefox\<newline>3  0 host Mozilla Firefox\<newline>''))
     1000 {''0x00000001'', ''0x00000002''} \<lparr>db = Some [], trace = []\<rparr>
   = (Inr ''0x00000003'',
      \<lparr>db = Some [],
       trace = [Exec ''wmctrl'' [''-l''], Exec ''wmctrl'' [''-l''], Exec ''wmctrl'' [''-l'']]\<rparr>)"
  by (simp add: waitForNewFirefoxWindow_def waitLoop.simps firefoxWIDs_two firefoxWIDs_three emit_def)

lemma firefoxWIDs_listingFirefox: "firefoxWIDs listingFirefox = [''0x03e00003'']"
  by (simp add: firefoxWIDs_def listingFirefox_def strings_eval normalizeWindowID_def)

text \<open>
  Against claim C1 as it is stated: Firefox reuses its window, so that every poll
  lists the window of the snapshot and the detector times out. The opening flow
  returns an error, and the process exits with status 1.
\<close>

theorem open_fails_on_detection_timeout:
  "fst (openBrowserInSideWindow (loadConfig_defaults unsetBehavior)
          (openEnv (Some listingFirefox) (\<lambda>i. (0, Some listingFirefox)))
          ''https://example.org/?q=%s'' ''foo'' \<lparr>db = Some [], trace = []\<rparr>)
     = Some (ErrDetectNewWindow ErrTimeoutNewWindow) \<and>
   main_exit (fst (openBrowserInSideWindow (loadConfig_defaults unsetBehavior)
          (openEnv (Some listingFirefox) (\<lambda>i. (0, Some listingFirefox)))
          ''https://example.org/?q=%s'' ''foo'' \<lparr>db = Some [], trace = []\<rparr>)) = 1"
proof -
  have "fst (openBrowserInSideWindow (loadConfig_defaults unsetBehavior)
          (openEnv (Some listingFirefox) (\<lambda>i. (0, Some listingFirefox)))
          ''https://example.org/?q=%s'' ''foo'' \<lparr>db = Some [], trace = []\<rparr>)
     = Some (ErrDetectNewWindow ErrTimeoutNewWindow)"
    using open_timeout_aux
      [of "openEnv (Some listingFirefox) (\<lambda>i. (0, Some listingFirefox))"]
    by (simp add: openEnv_def noNewWindow_def snapshotBefore_def firefoxWIDs_listingFirefox)
  then show ?thesis
    by (simp add: main_exit_def)
qed

text \<open>
  Claim C1, as amended. When Firefox has been started and no poll shows a new window,
  the detector times out and the opening flow fails: it returns the error that wraps
  the timeout, the process exits with status 1, nothing is positioned and nothing is
  added to the registry. Only the browser launch itself has happened.
\<close>

theorem open_detection_timeout_is_error:
  assumes "firefox_start_ok e"
    and "\<forall>i. noNewWindow (snapshotBefore (wmctrl_before e)) (snd (polls e i))"
  shows "fst (openBrowserInSideWindow b e searchURL query s)
           = Some (ErrDetectNewWindow ErrTimeoutNewWindow) \<and>
         main_exit (fst (openBrowserInSideWindow b e searchURL query s)) = 1 \<and>
         db (snd (openBrowserInSideWindow b e searchURL query s)) = db s \<and>
         (\<exists>n. trace (snd (openBrowserInSideWindow b e searchURL query s))
               = trace s @ [Exec ''wmctrl'' [''-l''],
                   Exec ''firefox''
                     (firefoxArgs b (ReplaceAll_placeholder searchURL (QueryEscape query)))]
                 @ replicate n (Exec ''wmctrl'' [''-l'']))"
  using open_timeout_aux [OF assms, of b searchURL query s] by (simp add: main_exit_def)

theorem open_detection_timeout_is_error_witness:
  "fst (openBrowserInSideWindow (loadConfig_defaults unsetBehavior)
          (openEnv None (\<lambda>i. (50, None)))
          ''https://example.org/?q=%s'' ''foo'' \<lparr>db = Some [(''0x00000002'', 2)], trace = []\<rparr>)
     = Some (ErrDetectNewWindow ErrTimeoutNewWindow) \<and>
   db (snd (openBrowserInSideWindow (loadConfig_defaults unsetBehavior)
          (openEnv None (\<lambda>i. (50, None)))
          ''https://example.org/?q=%s'' ''foo'' \<lparr>db = Some [(''0x00000002'', 2)], trace = []\<rparr>))
     = Some [(''0x00000002'', 2)]"
  using open_detection_timeout_is_error
    [of "openEnv None (\<lambda>i. (50, None))" "loadConfig_defaults unsetBehavior"
        "''https://example.org/?q=%s''" "''foo''"
        "\<lparr>db = Some [(''0x00000002'', 2)], trace = []\<rparr>"]
  by (simp add: openEnv_def noNewWindow_def)

section \<open>Window IDs are compared in normal form\<close>















text \<open>
  The condition on the listing is needed, since the reconciler itself does not call
  the normalizer on the listing. On a listing that wrote a window ID in decimal, which
  \<^verbatim>\<open>wmctrl\<close> does not do, it would remove the entry that the test on normalized
  forms keeps.
\<close>

lemma reconciler_decimal_listing:
  "normalizeWindowID ''123'' = ''0x0000007b'' \<and>
   currentWIDs listingDecimal = {''123''} \<and>
   cleanupDeadWindows (cleanupAllOk listingDecimal)
     \<lparr>db = Some [(''0x0000007b'', 1)], trace = []\<rparr>
   = (None,
      \<lparr>db = Some [],
       trace = [Exec ''wmctrl'' [''-l''], Log (LogCleanedUp ''0x0000007b'')]\<rparr>) \<and>
   reconcileOn normalizeWindowID normalizeWindowID (cleanupAllOk listingDecimal)
     \<lparr>db = Some [(''0x0000007b'', 1)], trace = []\<rparr>
   = (None, \<lparr>db = Some [(''0x0000007b'', 1)], trace = [Exec ''wmctrl'' [''-l'']]\<rparr>)"
proof -
  have n: "normalizeWindowID ''123'' = ''0x0000007b''"
    by (simp add: normalize_eval)
  have m: "normalizeWindowID ''0x0000007b'' = ''0x0000007b''"
    by (simp add: normalizeWindowID_def)
  have c: "currentWIDs listingDecimal = {''123''}"
    by (simp add: currentWIDs_def listingDecimal_def strings_eval)
  have a: "cleanupDeadWindows (cleanupAllOk listingDecimal)
     \<lparr>db = Some [(''0x0000007b'', 1)], trace = []\<rparr>
   = (None,
      \<lparr>db = Some [],
       trace = [Exec ''wmctrl'' [''-l''], Log (LogCleanedUp ''0x0000007b'')]\<rparr>)"
    by (simp add: cleanup_eval c)
  have b: "reconcileOn normalizeWindowID normalizeWindowID (cleanupAllOk listingDecimal)
     \<lparr>db = Some [(''0x0000007b'', 1)], trace = []\<rparr>
   = (None, \<lparr>db = Some [(''0x0000007b'', 1)], trace = [Exec ''wmctrl'' [''-l'']]\<rparr>)"
    by (simp add: reconcileOn_def cleanupAllOk_def sqlSelectWindowIds_def emit_def c n m)
  show ?thesis
    using n c a b by simp
qed

end
